theory Spec2Isabelle
  imports Complex_Main "HOL-Library.Char_ord" "HOL-Library.List_Lexorder"
begin

section \<open>Video concatenation with transitions: services/v1/video/concatenate.py\<close>

text \<open>
  A shallow embedding of the transition planner, the timing resolver, the filter-graph
  builder and the job driver \<open>process_video_concatenate\<close>. A Python float is a real
  number, an infinity or NaN (the constants 0.05, 0.2, 5.0 as exact decimals), Python
  strings are \<^typ>\<open>string\<close>, exceptions the left summand of a sum type. A leading underscore
  of a source name is dropped, since an Isabelle name cannot start with one.
\<close>

subsection \<open>Floats\<close>

text \<open>
  A float is NaN, an infinity or a number; numbers are exact (no rounding, no overflow, one
  zero). Arithmetic with NaN gives NaN and every comparison with NaN is false, except
  \<open>!=\<close>, which is true. The builtins \<open>min(a, b)\<close> and \<open>max(a, b)\<close> return \<open>a\<close> unless \<open>b\<close> is
  smaller (larger), so a NaN in first place is returned and one in second place is not.
\<close>

datatype pyfloat = NaN | NegInf | Num real | PosInf

fun f_lt :: "pyfloat \<Rightarrow> pyfloat \<Rightarrow> bool" where
  "f_lt (Num a) (Num b) = (a < b)"
| "f_lt NegInf (Num b) = True"
| "f_lt NegInf PosInf = True"
| "f_lt (Num a) PosInf = True"
| "f_lt a b = False"

definition f_gt :: "pyfloat \<Rightarrow> pyfloat \<Rightarrow> bool" where
  "f_gt a b = f_lt b a"

definition f_le :: "pyfloat \<Rightarrow> pyfloat \<Rightarrow> bool" where
  "f_le a b = (a \<noteq> NaN \<and> (a = b \<or> f_lt a b))"

definition f_ne :: "pyfloat \<Rightarrow> pyfloat \<Rightarrow> bool" where
  "f_ne a b = (if a = NaN then True else a \<noteq> b)"

fun f_neg :: "pyfloat \<Rightarrow> pyfloat" where
  "f_neg (Num a) = Num (- a)"
| "f_neg NegInf = PosInf"
| "f_neg PosInf = NegInf"
| "f_neg NaN = NaN"

fun f_add :: "pyfloat \<Rightarrow> pyfloat \<Rightarrow> pyfloat" where
  "f_add (Num a) (Num b) = Num (a + b)"
| "f_add NaN b = NaN"
| "f_add a NaN = NaN"
| "f_add PosInf NegInf = NaN"
| "f_add NegInf PosInf = NaN"
| "f_add (Num a) b = b"
| "f_add a b = a"

definition f_sub :: "pyfloat \<Rightarrow> pyfloat \<Rightarrow> pyfloat" where
  "f_sub a b = f_add a (f_neg b)"

fun f_mul :: "pyfloat \<Rightarrow> pyfloat \<Rightarrow> pyfloat" where
  "f_mul (Num a) (Num b) = Num (a * b)"
| "f_mul NaN b = NaN"
| "f_mul a NaN = NaN"
| "f_mul (Num a) b = (if a = 0 then NaN else if 0 < a then b else f_neg b)"
| "f_mul a (Num b) = (if b = 0 then NaN else if 0 < b then a else f_neg a)"
| "f_mul PosInf b = b"
| "f_mul NegInf b = f_neg b"

text \<open>
  Division by a number other than zero, which is all this module does (\<open>gain_db / 20.0\<close>):
  Python raises on a zero divisor, and the quotient of two infinities is NaN.
\<close>

fun f_div :: "pyfloat \<Rightarrow> pyfloat \<Rightarrow> pyfloat" where
  "f_div (Num a) (Num b) = Num (a / b)"
| "f_div NaN b = NaN"
| "f_div a NaN = NaN"
| "f_div (Num a) b = Num 0"
| "f_div a (Num b) = (if 0 < b then a else f_neg a)"
| "f_div a b = NaN"

definition py_min :: "pyfloat \<Rightarrow> pyfloat \<Rightarrow> pyfloat" where
  "py_min a b = (if f_lt b a then b else a)"

definition py_max :: "pyfloat \<Rightarrow> pyfloat \<Rightarrow> pyfloat" where
  "py_max a b = (if f_gt b a then b else a)"

text \<open>\<open>math.pow(10.0, x)\<close>.\<close>

fun pow10 :: "pyfloat \<Rightarrow> pyfloat" where
  "pow10 (Num x) = Num (10 powr x)"
| "pow10 PosInf = PosInf"
| "pow10 NegInf = Num 0"
| "pow10 NaN = NaN"

subsection \<open>Exceptions\<close>

text \<open>
  The exceptions the module raises itself carry their message. \<open>ExternalError\<close> stands
  for an exception raised inside a collaborator (\<open>download_file\<close>, \<open>ffmpeg.Error\<close> out of
  \<open>run\<close>), whose class and text the module does not choose.
\<close>

datatype error =
    ValueError string
  | RuntimeError string
  | FileNotFoundError string
  | IndexError
  | KeyError string
  | OverflowError string
  | ExternalError string

subsection \<open>Constants\<close>

definition SUPPORTED_TRANSITION_TYPES :: "(string \<times> string option) list" where
  "SUPPORTED_TRANSITION_TYPES =
     [(''none'', None),
      (''fade'', Some ''fade''),
      (''fade_black'', Some ''fadeblack''),
      (''wipe_left'', Some ''wipeleft''),
      (''wipe_right'', Some ''wiperight''),
      (''smooth_left'', Some ''smoothleft''),
      (''smooth_right'', Some ''smoothright''),
      (''whip_pan'', Some ''slideleft''),
      (''circle_open'', Some ''circleopen''),
      (''circle_close'', Some ''circleclose''),
      (''pixelize'', Some ''pixelize'')]"

definition DEFAULT_TRANSITION_TYPE :: string where
  "DEFAULT_TRANSITION_TYPE = ''none''"

definition DEFAULT_TRANSITION_DURATION :: real where
  "DEFAULT_TRANSITION_DURATION = 0.8"

definition MIN_TRANSITION_DURATION :: real where
  "MIN_TRANSITION_DURATION = 0.2"

definition MAX_TRANSITION_DURATION :: real where
  "MAX_TRANSITION_DURATION = 5.0"

subsection \<open>Strings\<close>

text \<open>
  \<open>str.lower\<close> on the letters A to Z; every other character of the 8-bit character type
  is left as it is.
\<close>

definition lower_char :: "char \<Rightarrow> char" where
  "lower_char c =
     (if CHR ''A'' \<le> c \<and> c \<le> CHR ''Z'' then char_of (of_char c + (32::nat)) else c)"

definition lower :: "string \<Rightarrow> string" where
  "lower s = map lower_char s"

text \<open>\<open>sep.join(xs)\<close>.\<close>

fun join :: "string \<Rightarrow> string list \<Rightarrow> string" where
  "join sep [] = []"
| "join sep [x] = x"
| "join sep (x # y # ys) = x @ sep @ join sep (y # ys)"

subsection \<open>TransitionPlanner\<close>

text \<open>
  \<open>_normalize_transition_type\<close>: \<open>requested_type or DEFAULT_TRANSITION_TYPE\<close> replaces
  \<open>None\<close> and the empty string (the falsy values of an optional string); the message of
  the error quotes the value as it was requested and lists the sorted keys.
\<close>

definition valid_listing :: string where
  "valid_listing = join '', '' (sort (map fst SUPPORTED_TRANSITION_TYPES))"

definition unsupported_message :: "string \<Rightarrow> string" where
  "unsupported_message requested_type =
     ''Unsupported transition_type '' @ [CHR 0x27] @ requested_type @ [CHR 0x27]
       @ ''. Choose one of: '' @ valid_listing @ ''.''"

definition str_of_optional :: "string option \<Rightarrow> string" where
  "str_of_optional v = (case v of None \<Rightarrow> ''None'' | Some s \<Rightarrow> s)"

definition normalize_transition_type :: "string option \<Rightarrow> error + string" where
  "normalize_transition_type requested_type =
     (let transition_key =
            lower (case requested_type of
                     None \<Rightarrow> DEFAULT_TRANSITION_TYPE
                   | Some s \<Rightarrow> (if s = [] then DEFAULT_TRANSITION_TYPE else s))
      in if transition_key \<notin> set (map fst SUPPORTED_TRANSITION_TYPES)
         then Inl (ValueError (unsupported_message (str_of_optional requested_type)))
         else Inr transition_key)"

text \<open>
  \<open>_normalize_transition_duration\<close> on a value that \<open>float()\<close> accepted. Both comparisons
  are false for NaN, which is returned as it is.
\<close>

definition normalize_transition_duration :: "pyfloat \<Rightarrow> pyfloat" where
  "normalize_transition_duration v =
     (if f_lt v (Num MIN_TRANSITION_DURATION) then Num MIN_TRANSITION_DURATION
      else if f_gt v (Num MAX_TRANSITION_DURATION) then Num MAX_TRANSITION_DURATION
      else v)"

text \<open>
  \<open>_build_transition_plan\<close>. \<open>not transition_sequence\<close> holds for \<open>None\<close> and for the empty
  list. The loop normalises each entry and rejects one that resolves to \<open>none\<close>; it stops
  at the first entry that raises.
\<close>

definition LENGTH_MESSAGE :: string where
  "LENGTH_MESSAGE = ''transition_sequence must include one transition per clip boundary.''"

definition NONE_ENTRY_MESSAGE :: string where
  "NONE_ENTRY_MESSAGE = ''transition_sequence entries must specify an actual transition type.''"

fun normalize_entries :: "string option list \<Rightarrow> error + string list" where
  "normalize_entries [] = Inr []"
| "normalize_entries (requested # rest) =
     (case normalize_transition_type requested of
        Inl e \<Rightarrow> Inl e
      | Inr key \<Rightarrow>
          if key = ''none'' then Inl (ValueError NONE_ENTRY_MESSAGE)
          else (case normalize_entries rest of
                  Inl e \<Rightarrow> Inl e
                | Inr plan \<Rightarrow> Inr (key # plan)))"

definition build_transition_plan ::
  "int \<Rightarrow> string \<Rightarrow> string option list option \<Rightarrow> error + string list" where
  "build_transition_plan clip_count default_transition transition_sequence =
     (if clip_count \<le> 1 then Inr []
      else case transition_sequence of
        None \<Rightarrow> Inr (replicate (nat (clip_count - 1)) default_transition)
      | Some sq \<Rightarrow>
          if sq = [] then Inr (replicate (nat (clip_count - 1)) default_transition)
          else if int (length sq) \<noteq> clip_count - 1 then Inl (ValueError LENGTH_MESSAGE)
          else normalize_entries sq)"

definition should_apply_transitions :: "string list \<Rightarrow> bool" where
  "should_apply_transitions transition_plan = list_ex (\<lambda>key. key \<noteq> ''none'') transition_plan"

subsection \<open>TimingResolver\<close>

definition TOO_LONG_MESSAGE :: string where
  "TOO_LONG_MESSAGE = ''Transition duration is longer than one of the clips.''"

definition effective_transition_duration ::
  "pyfloat \<Rightarrow> pyfloat \<Rightarrow> pyfloat \<Rightarrow> error + pyfloat" where
  "effective_transition_duration requested previous_tail next_clip =
     (let max_allowed = py_min previous_tail next_clip;
          safe_cap = py_max (f_sub max_allowed (Num 0.05)) (Num MIN_TRANSITION_DURATION);
          effective = py_min requested safe_cap
      in if f_lt effective (Num MIN_TRANSITION_DURATION) then Inl (ValueError TOO_LONG_MESSAGE)
         else Inr effective)"

subsection \<open>Numbers as text\<close>

text \<open>
  \<open>str(n)\<close> for an integer, and Python's \<open>round\<close> to an integer: ties go to the even
  neighbour, NaN and the infinities raise.
\<close>

definition digit_char :: "int \<Rightarrow> char" where
  "digit_char d = char_of (48 + d)"

function digits :: "int \<Rightarrow> string" where
  "digits n = (if n < 10 then [digit_char n] else digits (n div 10) @ [digit_char (n mod 10)])"
  by pat_completeness auto
termination
  by (relation "measure nat") auto

declare digits.simps [simp del]

definition str_int :: "int \<Rightarrow> string" where
  "str_int n = (if n < 0 then ''-'' @ digits (- n) else digits n)"

definition py_round :: "real \<Rightarrow> int" where
  "py_round x =
     (let f = \<lfloor>x\<rfloor>; d = x - of_int f
      in if d < 1 / 2 then f else if d > 1 / 2 then f + 1 else if even f then f else f + 1)"

fun round_float :: "pyfloat \<Rightarrow> error + int" where
  "round_float (Num x) = Inr (py_round x)"
| "round_float NaN = Inl (ValueError ''cannot convert float NaN to integer'')"
| "round_float x = Inl (OverflowError ''cannot convert float infinity to integer'')"

definition rstrip :: "char \<Rightarrow> string \<Rightarrow> string" where
  "rstrip c s = rev (dropWhile (\<lambda>x. x = c) (rev s))"

text \<open>
  \<open>format(value, ".6f")\<close>: sign, integer part, a dot and exactly six decimals of the value
  rounded to the nearest millionth; NaN is rendered as \<open>nan\<close>, an infinity as \<open>inf\<close>.
\<close>

fun format_6f :: "pyfloat \<Rightarrow> string" where
  "format_6f (Num v) =
     (let n = py_round (\<bar>v\<bar> * 1000000);
          frac = str_int (n mod 1000000)
      in (if v < 0 then ''-'' else []) @ str_int (n div 1000000) @ ''.''
           @ replicate (6 - length frac) (CHR ''0'') @ frac)"
| "format_6f NaN = ''nan''"
| "format_6f PosInf = ''inf''"
| "format_6f NegInf = ''-inf''"

definition format_decimal :: "pyfloat \<Rightarrow> string" where
  "format_decimal v =
     (let formatted = rstrip (CHR ''.'') (rstrip (CHR ''0'') (format_6f v))
      in if formatted \<noteq> [] then formatted else ''0'')"

subsection \<open>Paths and files\<close>

text \<open>
  \<open>os.path.join\<close> of two POSIX components. The file system is a map from the paths that
  exist to their contents; \<open>os.remove\<close> raises on a path that does not exist.
\<close>

definition path_join :: "string \<Rightarrow> string \<Rightarrow> string" where
  "path_join a b =
     (if b \<noteq> [] \<and> hd b = CHR ''/'' then b
      else if a = [] \<or> last a = CHR ''/'' then a @ b
      else a @ ''/'' @ b)"

type_synonym fs = "string \<Rightarrow> string option"

definition os_remove :: "string \<Rightarrow> fs \<Rightarrow> (error + unit) \<times> fs" where
  "os_remove f fl =
     (if f \<in> dom fl then (Inr (), fl(f := None)) else (Inl (FileNotFoundError f), fl))"

subsection \<open>The ffmpeg-python graph and the collaborators\<close>

text \<open>
  A stream of the ffmpeg-python library is a term: \<open>Input\<close> is \<open>ffmpeg.input(filename,
  **kwargs)\<close> with its selector (\<open>.video\<close> is \<open>Some ''v''\<close>, \<open>.audio\<close> is \<open>Some ''a''\<close>),
  \<open>Filter\<close> is \<open>ffmpeg.filter(streams, name, *args, **kwargs)\<close> (and \<open>stream.filter_\<close>),
  \<open>FilterMultiOutput\<close> is \<open>filter_multi_output(name).stream(label)\<close>. \<open>Output\<close> is
  \<open>ffmpeg.output(*streams, filename, **kwargs)\<close>.
\<close>

datatype arg = S string | R pyfloat | I int

datatype stream =
    Input string "(string \<times> arg) list" "string option"
  | Filter "stream list" string "arg list" "(string \<times> arg) list"
  | FilterMultiOutput "stream list" string string

datatype output_spec = Output "stream list" string "(string \<times> string) list"

text \<open>
  What is handed to the external engine: \<open>RunStream\<close> is \<open>stream.run(overwrite_output=True)\<close>
  of ffmpeg-python, \<open>RunCommand\<close> is \<open>subprocess.run(new_cmd, capture_output=True,
  text=True)\<close>. The engine answers with its exit status, its stderr text and, when it left
  a file at the destination, the contents of that file.
\<close>

datatype engine_job = RunStream output_spec | RunCommand "string list"

record engine_result =
  returncode :: int
  stderr :: string
  produced :: "string option"

text \<open>
  \<open>ffmpeg.probe\<close>: the field \<open>format.duration\<close> (absent, a text that \<open>float()\<close> rejects, or
  seconds) and the \<open>codec_type\<close> of every stream.
\<close>

datatype duration_field = Missing | Unparsable string | Seconds pyfloat

datatype probe_data = ProbeData duration_field "string option list"

text \<open>
  The environment of one job: configuration, the asset fetcher (\<open>None\<close> when it raises,
  otherwise the local path and the contents it stored there), the random part of the name
  \<open>NamedTemporaryFile\<close> picks, \<open>os.path.abspath\<close>, the prober (\<open>Inl\<close> is the text of
  \<open>ffmpeg.Error\<close>), the command compiler of ffmpeg-python and the engine, which reads
  the file system.
\<close>

record env =
  LOCAL_STORAGE_PATH :: string
  REPO_ROOT :: string
  download_file :: "string \<Rightarrow> string \<Rightarrow> (string \<times> string) option"
  temp_random :: string
  abspath :: "string \<Rightarrow> string"
  ffmpeg_probe :: "string \<Rightarrow> string + probe_data"
  compile :: "output_spec \<Rightarrow> string list"
  engine :: "engine_job \<Rightarrow> fs \<Rightarrow> engine_result"

definition AUDIO_SAMPLE_RATE :: int where
  "AUDIO_SAMPLE_RATE = 48000"

definition WHIP_PAN_SFX_PATH :: "env \<Rightarrow> string" where
  "WHIP_PAN_SFX_PATH e =
     path_join (path_join (path_join (REPO_ROOT e) ''assets'') ''audio'') ''whip_pan_whoosh.mp3''"

definition DEFAULT_WHIP_PAN_SFX_GAIN_DB :: real where
  "DEFAULT_WHIP_PAN_SFX_GAIN_DB = - 6.0"

definition MIN_WHIP_PAN_SFX_GAIN_DB :: real where
  "MIN_WHIP_PAN_SFX_GAIN_DB = - 60.0"

definition MAX_WHIP_PAN_SFX_GAIN_DB :: real where
  "MAX_WHIP_PAN_SFX_GAIN_DB = 6.0"

definition MIN_TRANSITION_SFX_TRACK_ID :: int where
  "MIN_TRANSITION_SFX_TRACK_ID = 0"

definition MAX_TRANSITION_SFX_TRACK_ID :: int where
  "MAX_TRANSITION_SFX_TRACK_ID = 15"

definition normalize_whip_pan_sfx_gain_db :: "pyfloat \<Rightarrow> pyfloat" where
  "normalize_whip_pan_sfx_gain_db v =
     (if f_lt v (Num MIN_WHIP_PAN_SFX_GAIN_DB) then Num MIN_WHIP_PAN_SFX_GAIN_DB
      else if f_gt v (Num MAX_WHIP_PAN_SFX_GAIN_DB) then Num MAX_WHIP_PAN_SFX_GAIN_DB
      else v)"

definition normalize_transition_sfx_track_id :: "int option \<Rightarrow> int option" where
  "normalize_transition_sfx_track_id track_id =
     (case track_id of
        None \<Rightarrow> None
      | Some v \<Rightarrow>
          if v < MIN_TRANSITION_SFX_TRACK_ID then Some MIN_TRANSITION_SFX_TRACK_ID
          else if v > MAX_TRANSITION_SFX_TRACK_ID then Some MAX_TRANSITION_SFX_TRACK_ID
          else Some v)"

subsection \<open>MediaProbe\<close>

definition probe_media :: "env \<Rightarrow> string \<Rightarrow> error + pyfloat \<times> bool" where
  "probe_media e path =
     (case ffmpeg_probe e path of
        Inl exc \<Rightarrow> Inl (RuntimeError (''Unable to probe media file '' @ path @ '': '' @ exc))
      | Inr (ProbeData duration_str streams) \<Rightarrow>
          (case duration_str of
             Missing \<Rightarrow> Inl (ValueError (''Unable to determine duration for '' @ path @ ''.''))
           | Unparsable t \<Rightarrow>
               Inl (ValueError (''could not convert string to float: '' @ [CHR 0x27] @ t
                                  @ [CHR 0x27]))
           | Seconds d \<Rightarrow> Inr (d, list_ex (\<lambda>codec_type. codec_type = Some ''audio'') streams)))"

definition build_silence_audio :: "pyfloat \<Rightarrow> stream" where
  "build_silence_audio d =
     (let silence = Input ''anullsrc''
                      [(''f'', S ''lavfi''), (''channel_layout'', S ''stereo''),
                       (''sample_rate'', I AUDIO_SAMPLE_RATE)] (Some ''a'')
      in Filter [Filter [silence] ''atrim'' [] [(''duration'', R d)]] ''asetpts'' [S ''N/SR/TB''] [])"

subsection \<open>WhipPanCompositor\<close>

definition build_whip_pan_expression :: "pyfloat \<Rightarrow> pyfloat \<Rightarrow> string" where
  "build_whip_pan_expression offset d =
     (let offset_str = format_decimal offset;
          duration_str = format_decimal d;
          end_str = format_decimal (f_add offset d)
      in ''if(between(T,'' @ offset_str @ '','' @ end_str @ ''),''
         @ ''A+(B-A)*sin((T-'' @ offset_str @ '')/'' @ duration_str @ ''*3.14159),''
         @ ''A)'')"

definition apply_whip_pan_transition ::
  "stream \<Rightarrow> stream \<Rightarrow> pyfloat \<Rightarrow> pyfloat \<Rightarrow> stream" where
  "apply_whip_pan_transition leading_video trailing_video transition_duration offset =
     (let base = Filter [leading_video, trailing_video] ''xfade'' []
                   [(''transition'', S ''slideleft''), (''duration'', R transition_duration),
                    (''offset'', R offset)];
          sharp = FilterMultiOutput [base] ''split'' ''out0'';
          blur_source = FilterMultiOutput [base] ''split'' ''out1'';
          blurred = Filter [blur_source] ''gblur'' []
                      [(''sigma'', I 100), (''steps'', I 1), (''sigmaV'', I 0)];
          blend_expr = build_whip_pan_expression offset transition_duration
      in Filter [sharp, blurred] ''blend'' [] [(''all_expr'', S blend_expr)])"

text \<open>
  \<open>_build_whip_pan_sound_effect\<close> looks for the asset in the file system first and returns
  \<open>None\<close> when it is not there. With the asset, \<open>int(round(offset * 1000))\<close> raises for an
  offset that is NaN or infinite.
\<close>

definition build_whip_pan_sound_effect ::
  "env \<Rightarrow> fs \<Rightarrow> pyfloat \<Rightarrow> pyfloat \<Rightarrow> pyfloat \<Rightarrow> error + stream option" where
  "build_whip_pan_sound_effect e fl offset d gain_db =
     (if WHIP_PAN_SFX_PATH e \<notin> dom fl then Inr None
      else
        let effect = Input (WHIP_PAN_SFX_PATH e) [] (Some ''a'');
            trimmed = Filter [Filter [effect] ''atrim'' [] [(''start'', I 0), (''duration'', R d)]]
                        ''asetpts'' [S ''PTS-STARTPTS''] [];
            trimmed = (if f_ne gain_db (Num 0)
                       then Filter [trimmed] ''volume'' [R (pow10 (f_div gain_db (Num 20)))] []
                       else trimmed)
        in (case round_float (f_mul offset (Num 1000)) of
              Inl x \<Rightarrow> Inl x
            | Inr rounded \<Rightarrow>
                (let delay_ms = max rounded 0;
                     trimmed = (if delay_ms > 0
                                then Filter [trimmed] ''adelay''
                                       [S (str_int delay_ms @ ''|'' @ str_int delay_ms)] []
                                else trimmed)
                 in Inr (Some trimmed))))"

definition apply_whip_pan_audio ::
  "env \<Rightarrow> fs \<Rightarrow> stream \<Rightarrow> stream \<Rightarrow> pyfloat \<Rightarrow> pyfloat \<Rightarrow> pyfloat \<Rightarrow> error + stream" where
  "apply_whip_pan_audio e fl leading_audio trailing_audio transition_duration offset gain_db =
     (let base_audio = Filter [leading_audio, trailing_audio] ''acrossfade'' []
                         [(''d'', R transition_duration)]
      in case build_whip_pan_sound_effect e fl offset transition_duration gain_db of
           Inl x \<Rightarrow> Inl x
         | Inr None \<Rightarrow> Inr base_audio
         | Inr (Some effect_stream) \<Rightarrow>
             Inr (Filter [base_audio, effect_stream] ''amix'' []
                    [(''inputs'', I 2), (''dropout_transition'', I 0)]))"

subsection \<open>SfxTrackMixer\<close>

definition build_sfx_track :: "(stream \<times> pyfloat) list \<Rightarrow> pyfloat \<Rightarrow> int \<Rightarrow> stream" where
  "build_sfx_track sfx total_duration sample_rate =
     (if sfx = [] then build_silence_audio total_duration
      else
        let base_silence =
              Filter [Filter [Input ''anullsrc''
                                [(''f'', S ''lavfi''), (''channel_layout'', S ''stereo''),
                                 (''sample_rate'', I sample_rate)] (Some ''a'')]
                        ''atrim'' [] [(''duration'', R total_duration)]]
                ''asetpts'' [S ''N/SR/TB''] [];
            streams_to_mix = base_silence # map fst sfx
        in if length streams_to_mix = 1 then hd streams_to_mix
           else Filter streams_to_mix ''amix'' []
                  [(''inputs'', I (int (length streams_to_mix))), (''duration'', S ''first''),
                   (''dropout_transition'', I 0)])"

subsection \<open>Label patterns of the graph merge\<close>

text \<open>
  \<open>match_label pre s\<close> matches, at the start of \<open>s\<close>, the text \<open>pre\<close> followed by one or
  more digits and a closing bracket; it returns the digits and the text after the match.
  The digits are the ASCII digits.
\<close>

definition is_digit :: "char \<Rightarrow> bool" where
  "is_digit c = (CHR ''0'' \<le> c \<and> c \<le> CHR ''9'')"

definition match_label :: "string \<Rightarrow> string \<Rightarrow> (string \<times> string) option" where
  "match_label pre s =
     (if take (length pre) s \<noteq> pre then None
      else
        let t = drop (length pre) s;
            ds = takeWhile is_digit t;
            r = dropWhile is_digit t
        in if ds \<noteq> [] \<and> r \<noteq> [] \<and> hd r = CHR '']'' then Some (ds, tl r) else None)"

text \<open>
  \<^verbatim>\<open>re.sub(r'\[s(\d+)\]', rename_sfx_label, sfx_filter)\<close>: every match, from the left and
  without overlap, becomes \<open>[sfx\<close>, the digits, \<open>]\<close>.
\<close>

function sub_sfx_labels :: "string \<Rightarrow> string" where
  "sub_sfx_labels s =
     (if s = [] then []
      else case match_label ''[s'' s of
             Some (ds, rest) \<Rightarrow> ''[sfx'' @ ds @ '']'' @ sub_sfx_labels rest
           | None \<Rightarrow> hd s # sub_sfx_labels (tl s))"
  by pat_completeness auto
termination
proof (relation "measure length")
  show "wf (measure length)" by simp
next
  fix s :: string and x2 x y
  assume "s \<noteq> []" and m: "match_label ''[s'' s = Some x2" and x: "(x, y) = x2"
  obtain r where r: "r = dropWhile is_digit (drop (length ''[s'') s)" by simp
  from m x have "y = tl r \<and> r \<noteq> []"
    unfolding match_label_def Let_def r by (simp only: split: if_splits) auto
  moreover have "length r \<le> length s"
    unfolding r by (rule order_trans [OF length_dropWhile_le]) simp
  ultimately show "(y, s) \<in> measure length"
    by (cases r) auto
next
  fix s :: string
  assume "s \<noteq> []"
  then show "(tl s, s) \<in> measure length" by (cases s) auto
qed

declare sub_sfx_labels.simps [simp del]

text \<open>\<^verbatim>\<open>re.findall(r'\[s\d+\]', main_filter)\<close>.\<close>

function findall_labels :: "string \<Rightarrow> string list" where
  "findall_labels s =
     (if s = [] then []
      else case match_label ''[s'' s of
             Some (ds, rest) \<Rightarrow> (''[s'' @ ds @ '']'') # findall_labels rest
           | None \<Rightarrow> findall_labels (tl s))"
  by pat_completeness auto
termination
proof (relation "measure length")
  show "wf (measure length)" by simp
next
  fix s :: string and x2 x y
  assume "s \<noteq> []" and m: "match_label ''[s'' s = Some x2" and x: "(x, y) = x2"
  obtain r where r: "r = dropWhile is_digit (drop (length ''[s'') s)" by simp
  from m x have "y = tl r \<and> r \<noteq> []"
    unfolding match_label_def Let_def r by (simp only: split: if_splits) auto
  moreover have "length r \<le> length s"
    unfolding r by (rule order_trans [OF length_dropWhile_le]) simp
  ultimately show "(y, s) \<in> measure length"
    by (cases r) auto
next
  fix s :: string
  assume "s \<noteq> []"
  then show "(tl s, s) \<in> measure length" by (cases s) auto
qed

declare findall_labels.simps [simp del]

text \<open>
  \<^verbatim>\<open>re.search(r'\[sfx\d+\]$', s)\<close>: the leftmost position where the label matches and is
  followed by the end of the text (\<open>$\<close> also matches before a final newline); the result is
  \<open>group(0)\<close>.
\<close>

fun search_final_sfx_label :: "string \<Rightarrow> string option" where
  "search_final_sfx_label [] = None"
| "search_final_sfx_label (c # cs) =
     (case match_label ''[sfx'' (c # cs) of
        Some (ds, rest) \<Rightarrow>
          if rest = [] \<or> rest = [CHR 0x0A] then Some (''[sfx'' @ ds @ '']'')
          else search_final_sfx_label cs
      | None \<Rightarrow> search_final_sfx_label cs)"

text \<open>The \<open>for i, arg in enumerate(cmd)\<close> loop with its \<open>break\<close>, and \<open>xs[i]\<close>.\<close>

fun find_arg :: "string \<Rightarrow> string list \<Rightarrow> nat option" where
  "find_arg a [] = None"
| "find_arg a (x # xs) = (if x = a then Some 0 else map_option Suc (find_arg a xs))"

definition item :: "'a list \<Rightarrow> nat \<Rightarrow> error + 'a" where
  "item xs i = (if i < length xs then Inr (xs ! i) else Inl IndexError)"

definition kwargs_get :: "(string \<times> string) list \<Rightarrow> string \<Rightarrow> string \<Rightarrow> string" where
  "kwargs_get kwargs k d = (case map_of kwargs k of Some v \<Rightarrow> v | None \<Rightarrow> d)"

text \<open>
  The body of the innermost \<open>if\<close> of \<open>_concatenate_with_transitions\<close>: from the two filter
  texts to the command with three mapped outputs.
\<close>

definition multitrack_command ::
  "string list \<Rightarrow> nat \<Rightarrow> string \<Rightarrow> string \<Rightarrow> string \<Rightarrow> (string \<times> string) list \<Rightarrow> string list" where
  "multitrack_command cmd filter_idx main_filter sfx_filter output_path output_kwargs =
     (let renamed = sub_sfx_labels sfx_filter;
          sfx_filter_renamed =
            (case search_final_sfx_label renamed of
               Some final_sfx_label \<Rightarrow>
                 take (length renamed - length final_sfx_label) renamed @ ''[sfx]''
             | None \<Rightarrow> rstrip (CHR '';'') renamed @ ''[sfx]'');
          combined_filter = main_filter @ '';'' @ sfx_filter_renamed;
          new_cmd = [''ffmpeg'', ''-y''] @ drop 1 (take filter_idx cmd)
                      @ [''-filter_complex'', combined_filter];
          main_labels = findall_labels main_filter;
          video_label = (if length main_labels \<ge> 2
                         then main_labels ! (length main_labels - 2) else ''[s0]'');
          audio_label = (if length main_labels \<ge> 2 then last main_labels
                         else if length main_labels \<ge> 1 then ''[s1]'' else ''[s0]'')
      in new_cmd
         @ [''-map'', video_label, ''-map'', audio_label, ''-map'', ''[sfx]'']
         @ [''-vcodec'', kwargs_get output_kwargs ''vcodec'' ''libx264'']
         @ [''-pix_fmt'', kwargs_get output_kwargs ''pix_fmt'' ''yuv420p'']
         @ [''-movflags'', kwargs_get output_kwargs ''movflags'' ''faststart'']
         @ [''-c:a'', kwargs_get output_kwargs ''acodec'' ''aac'']
         @ [output_path])"

subsection \<open>FilterGraphBuilder\<close>

record media =
  video :: stream
  audio :: stream
  duration :: pyfloat

record fold_state =
  current_video :: stream
  current_audio :: stream
  cumulative_duration :: pyfloat
  trailing_clip_duration :: pyfloat
  sfx_streams :: "(stream \<times> pyfloat) list"

fun probe_streams :: "env \<Rightarrow> string list \<Rightarrow> error + media list" where
  "probe_streams e [] = Inr []"
| "probe_streams e (path # rest) =
     (case probe_media e path of
        Inl x \<Rightarrow> Inl x
      | Inr (d, has_audio) \<Rightarrow>
          (let m = \<lparr>video = Input path [] (Some ''v''),
                    audio = (if has_audio then Input path [] (Some ''a'')
                             else build_silence_audio d),
                    duration = d\<rparr>
           in (case probe_streams e rest of
                 Inl x \<Rightarrow> Inl x
               | Inr ms \<Rightarrow> Inr (m # ms))))"

definition NONE_IN_PLAN_MESSAGE :: string where
  "NONE_IN_PLAN_MESSAGE = ''transition plan unexpectedly requested '' @ [CHR 0x27] @ ''none''
     @ [CHR 0x27] @ ''.''"

text \<open>
  One pass of the loop over \<open>range(1, len(media_streams))\<close>. The integer 0 of
  \<open>max(cumulative_duration - effective_duration, 0)\<close> is taken as the float 0.
\<close>

definition transition_step ::
  "env \<Rightarrow> fs \<Rightarrow> string list \<Rightarrow> pyfloat \<Rightarrow> pyfloat \<Rightarrow> int option \<Rightarrow> nat \<Rightarrow> media \<Rightarrow> fold_state
     \<Rightarrow> error + fold_state" where
  "transition_step e fl transition_plan transition_duration whip_pan_sfx_gain_db
       transition_sfx_track_id idx next_stream st =
     (case item transition_plan (idx - 1) of
        Inl x \<Rightarrow> Inl x
      | Inr transition_key \<Rightarrow>
     (case effective_transition_duration transition_duration (trailing_clip_duration st)
            (duration next_stream) of
        Inl x \<Rightarrow> Inl x
      | Inr effective_duration \<Rightarrow>
     (let offset = py_max (f_sub (cumulative_duration st) effective_duration) (Num 0);
          crossfade = Filter [current_audio st, audio next_stream] ''acrossfade'' []
                        [(''d'', R effective_duration)]
      in (case
          (if transition_key = ''whip_pan'' then
            (let v = apply_whip_pan_transition (current_video st) (video next_stream)
                       effective_duration offset
             in if transition_sfx_track_id \<noteq> None then
                  (case build_whip_pan_sound_effect e fl offset effective_duration
                          whip_pan_sfx_gain_db of
                     Inl x \<Rightarrow> Inl x
                   | Inr None \<Rightarrow> Inr (v, crossfade, sfx_streams st)
                   | Inr (Some sfx_stream) \<Rightarrow>
                       Inr (v, crossfade, sfx_streams st @ [(sfx_stream, offset)]))
                else
                  (case apply_whip_pan_audio e fl (current_audio st) (audio next_stream)
                          effective_duration offset whip_pan_sfx_gain_db of
                     Inl x \<Rightarrow> Inl x
                   | Inr mixed \<Rightarrow> Inr (v, mixed, sfx_streams st)))
           else
             (case map_of SUPPORTED_TRANSITION_TYPES transition_key of
                None \<Rightarrow> Inl (KeyError transition_key)
              | Some None \<Rightarrow> Inl (ValueError NONE_IN_PLAN_MESSAGE)
              | Some (Some transition_name) \<Rightarrow>
                  Inr (Filter [current_video st, video next_stream] ''xfade'' []
                         [(''transition'', S transition_name),
                          (''duration'', R effective_duration), (''offset'', R offset)],
                       crossfade, sfx_streams st)))
        of
          Inl x \<Rightarrow> Inl x
        | Inr (v, a, sfx) \<Rightarrow>
            Inr \<lparr>current_video = v, current_audio = a,
                 cumulative_duration =
                   f_sub (f_add (cumulative_duration st) (duration next_stream))
                     effective_duration,
                 trailing_clip_duration = duration next_stream,
                 sfx_streams = sfx\<rparr>))))"

fun fold_boundaries ::
  "env \<Rightarrow> fs \<Rightarrow> string list \<Rightarrow> pyfloat \<Rightarrow> pyfloat \<Rightarrow> int option \<Rightarrow> nat \<Rightarrow> media list \<Rightarrow> fold_state
     \<Rightarrow> error + fold_state" where
  "fold_boundaries e fl plan td gain tid idx [] st = Inr st"
| "fold_boundaries e fl plan td gain tid idx (next_stream # rest) st =
     (case transition_step e fl plan td gain tid idx next_stream st of
        Inl x \<Rightarrow> Inl x
      | Inr st' \<Rightarrow> fold_boundaries e fl plan td gain tid (Suc idx) rest st')"

subsection \<open>CommandSynthesizer and Executor\<close>

text \<open>
  What \<open>_concatenate_with_transitions\<close> hands to the engine after the loop.
  \<open>final_output_kwargs\<close> is \<open>output_kwargs\<close> once \<open>acodec\<close> has been added (the running
  audio stream is never \<open>None\<close>), \<open>video_audio_output\<close> and \<open>sfx_output\<close> are the two
  output specifications of that name. With a track id and collected effects the code
  compiles both and looks for \<open>-filter_complex\<close> in each; when either search finds nothing
  it falls through to running \<open>video_audio_output\<close>.
\<close>

definition final_output_kwargs :: "(string \<times> string) list" where
  "final_output_kwargs = [(''vcodec'', ''libx264''), (''pix_fmt'', ''yuv420p''),
                          (''movflags'', ''faststart''), (''acodec'', ''aac'')]"

definition video_audio_output :: "fold_state \<Rightarrow> string \<Rightarrow> output_spec" where
  "video_audio_output st output_path =
     Output [current_video st, current_audio st] output_path final_output_kwargs"

definition sfx_output :: "fold_state \<Rightarrow> output_spec" where
  "sfx_output st =
     Output [build_sfx_track (sfx_streams st) (cumulative_duration st) AUDIO_SAMPLE_RATE]
       ''/dev/null'' [(''format'', ''null'')]"

definition transitions_job :: "env \<Rightarrow> fold_state \<Rightarrow> string \<Rightarrow> int option \<Rightarrow> error + engine_job" where
  "transitions_job e st output_path transition_sfx_track_id =
     (if transition_sfx_track_id \<noteq> None \<and> sfx_streams st \<noteq> [] then
        (let cmd = compile e (video_audio_output st output_path)
         in (case find_arg ''-filter_complex'' cmd of
               None \<Rightarrow> Inr (RunStream (video_audio_output st output_path))
             | Some filter_idx \<Rightarrow>
                 (let sfx_cmd = compile e (sfx_output st)
                  in (case find_arg ''-filter_complex'' sfx_cmd of
                        None \<Rightarrow> Inr (RunStream (video_audio_output st output_path))
                      | Some sfx_filter_idx \<Rightarrow>
                          (case item cmd (filter_idx + 1) of
                             Inl x \<Rightarrow> Inl x
                           | Inr main_filter \<Rightarrow>
                               (case item sfx_cmd (sfx_filter_idx + 1) of
                                  Inl x \<Rightarrow> Inl x
                                | Inr sfx_filter \<Rightarrow>
                                    Inr (RunCommand
                                           (multitrack_command cmd filter_idx main_filter
                                              sfx_filter output_path final_output_kwargs))))))))
      else Inr (RunStream (video_audio_output st output_path)))"

text \<open>
  The state a job changes: the file system, and the jobs handed to the engine so far, in
  the order of the calls.
\<close>

record world =
  files :: fs
  jobs :: "engine_job list"

definition written :: "engine_result \<Rightarrow> string \<Rightarrow> fs \<Rightarrow> fs" where
  "written r path fl =
     (case produced r of None \<Rightarrow> fl | Some content \<Rightarrow> fl(path \<mapsto> content))"

text \<open>
  One call of the engine. ffmpeg-python's \<open>run\<close> raises \<open>ffmpeg.Error\<close> on a non-zero exit
  status; after \<open>subprocess.run\<close> the module itself raises \<open>RuntimeError\<close> with the stderr
  text.
\<close>

definition run_job :: "env \<Rightarrow> engine_job \<Rightarrow> string \<Rightarrow> world \<Rightarrow> (error + unit) \<times> world" where
  "run_job e job output_path w =
     (let r = engine e job (files w);
          w' = \<lparr>files = written r output_path (files w), jobs = jobs w @ [job]\<rparr>
      in if returncode r = 0 then (Inr (), w')
         else (Inl (case job of
                      RunStream spec \<Rightarrow> ExternalError (stderr r)
                    | RunCommand new_cmd \<Rightarrow>
                        RuntimeError (''FFmpeg multi-track output failed: '' @ stderr r)),
               w'))"

definition concatenate_with_transitions ::
  "env \<Rightarrow> string list \<Rightarrow> string \<Rightarrow> string list \<Rightarrow> pyfloat \<Rightarrow> pyfloat \<Rightarrow> int option \<Rightarrow> world
     \<Rightarrow> (error + unit) \<times> world" where
  "concatenate_with_transitions e input_files output_path transition_plan transition_duration
       whip_pan_sfx_gain_db transition_sfx_track_id w =
     (case probe_streams e input_files of
        Inl x \<Rightarrow> (Inl x, w)
      | Inr media_streams \<Rightarrow>
          (case media_streams of
             [] \<Rightarrow> (Inl IndexError, w)
           | first # rest \<Rightarrow>
               (case fold_boundaries e (files w) transition_plan transition_duration
                       whip_pan_sfx_gain_db transition_sfx_track_id 1 rest
                       \<lparr>current_video = video first, current_audio = audio first,
                        cumulative_duration = duration first,
                        trailing_clip_duration = duration first, sfx_streams = []\<rparr> of
                  Inl x \<Rightarrow> (Inl x, w)
                | Inr st \<Rightarrow>
                    (case transitions_job e st output_path transition_sfx_track_id of
                       Inl x \<Rightarrow> (Inl x, w)
                     | Inr job \<Rightarrow> run_job e job output_path w))))"

text \<open>
  \<open>_concatenate_with_concat_demuxer\<close>: the list file is created and written, the engine
  runs the concat demuxer with stream copy, and the \<open>finally\<close> clause removes the list file
  on every exit.
\<close>

definition concat_list_name :: "env \<Rightarrow> string" where
  "concat_list_name e =
     path_join (LOCAL_STORAGE_PATH e) (''tmp'' @ temp_random e @ ''_concat_list.txt'')"

definition concat_list_text :: "env \<Rightarrow> string list \<Rightarrow> string" where
  "concat_list_text e input_files =
     concat (map (\<lambda>input_file. ''file '' @ [CHR 0x27] @ abspath e input_file @ [CHR 0x27, CHR 0x0A])
               input_files)"

definition concat_demuxer_job :: "env \<Rightarrow> string \<Rightarrow> engine_job" where
  "concat_demuxer_job e output_path =
     RunStream (Output [Input (concat_list_name e) [(''format'', S ''concat''), (''safe'', I 0)] None]
                  output_path [(''c'', ''copy'')])"

definition concatenate_with_concat_demuxer ::
  "env \<Rightarrow> string list \<Rightarrow> string \<Rightarrow> world \<Rightarrow> (error + unit) \<times> world" where
  "concatenate_with_concat_demuxer e input_files output_path w =
     (let w1 = w\<lparr>files := (files w)(concat_list_name e \<mapsto> concat_list_text e input_files)\<rparr>;
          (res, w2) = run_job e (concat_demuxer_job e output_path) output_path w1;
          w3 = (if concat_list_name e \<in> dom (files w2)
                then w2\<lparr>files := (files w2)(concat_list_name e := None)\<rparr>
                else w2)
      in (res, w3))"

subsection \<open>The job: \<open>process_video_concatenate\<close>\<close>

text \<open>
  A media item is a JSON object, here the list of its fields. The download loop appends
  each local path to \<open>input_files\<close>; an exception leaves the loop with the files stored so
  far in place.
\<close>

fun download_inputs ::
  "env \<Rightarrow> string \<Rightarrow> nat \<Rightarrow> (string \<times> string) list list \<Rightarrow> string list \<Rightarrow> world
     \<Rightarrow> (error + string list) \<times> world" where
  "download_inputs e job_id i [] input_files w = (Inr input_files, w)"
| "download_inputs e job_id i (media_item # rest) input_files w =
     (case map_of media_item ''video_url'' of
        None \<Rightarrow> (Inl (KeyError ''video_url''), w)
      | Some url \<Rightarrow>
          (case download_file e url
                  (path_join (LOCAL_STORAGE_PATH e) (job_id @ ''_input_'' @ str_int (int i))) of
             None \<Rightarrow> (Inl (ExternalError ''download_file''), w)
           | Some (input_filename, content) \<Rightarrow>
               download_inputs e job_id (Suc i) rest (input_files @ [input_filename])
                 (w\<lparr>files := (files w)(input_filename \<mapsto> content)\<rparr>)))"

fun remove_inputs :: "string list \<Rightarrow> world \<Rightarrow> (error + unit) \<times> world" where
  "remove_inputs [] w = (Inr (), w)"
| "remove_inputs (f # rest) w =
     (case os_remove f (files w) of
        (Inl x, fl) \<Rightarrow> (Inl x, w\<lparr>files := fl\<rparr>)
      | (Inr u, fl) \<Rightarrow> remove_inputs rest (w\<lparr>files := fl\<rparr>))"

text \<open>
  The four normalisations run before the \<open>try\<close>. The \<open>except\<close> clause prints and raises
  again, so every exception of the body reaches the caller with the file system as the
  body left it; the loop that removes the inputs is the last but one statement of the
  body.
\<close>

definition process_video_concatenate ::
  "env \<Rightarrow> (string \<times> string) list list \<Rightarrow> string \<Rightarrow> string option \<Rightarrow> pyfloat
     \<Rightarrow> string option list option \<Rightarrow> pyfloat \<Rightarrow> int option \<Rightarrow> world
     \<Rightarrow> (error + string) \<times> world" where
  "process_video_concatenate e media_urls job_id transition_type transition_duration
       transition_sequence whip_pan_sfx_gain_db transition_sfx_track_id w =
     (case normalize_transition_type transition_type of
        Inl x \<Rightarrow> (Inl x, w)
      | Inr validated_transition \<Rightarrow>
    (let normalized_duration = normalize_transition_duration transition_duration;
         normalized_whip_pan_gain = normalize_whip_pan_sfx_gain_db whip_pan_sfx_gain_db;
         normalized_sfx_track_id = normalize_transition_sfx_track_id transition_sfx_track_id;
         output_path = path_join (LOCAL_STORAGE_PATH e) (job_id @ ''.mp4'')
     in (case download_inputs e job_id 0 media_urls [] w of
          (Inl x, w1) \<Rightarrow> (Inl x, w1)
        | (Inr input_files, w1) \<Rightarrow>
     (case build_transition_plan (int (length input_files)) validated_transition
             transition_sequence of
        Inl x \<Rightarrow> (Inl x, w1)
      | Inr transition_plan \<Rightarrow>
     (case (if should_apply_transitions transition_plan
            then concatenate_with_transitions e input_files output_path transition_plan
                   normalized_duration normalized_whip_pan_gain normalized_sfx_track_id w1
            else concatenate_with_concat_demuxer e input_files output_path w1) of
        (Inl x, w2) \<Rightarrow> (Inl x, w2)
      | (Inr u, w2) \<Rightarrow>
     (case remove_inputs input_files w2 of
        (Inl x, w3) \<Rightarrow> (Inl x, w3)
      | (Inr u', w3) \<Rightarrow>
          if output_path \<notin> dom (files w3)
          then (Inl (FileNotFoundError (''Output file '' @ output_path
                       @ '' does not exist after combination.'')), w3)
          else (Inr output_path, w3)))))))"

subsection \<open>Example jobs\<close>

text \<open>
  A job environment for the examples: the fetcher stores every clip under the destination
  it is given, every clip is two seconds long with one video and one audio stream, the
  engine succeeds and writes the output. \<open>graph_compiler\<close> stands for a compiler that
  renders a filter graph, \<open>bare_compiler\<close> for one whose command has no
  \<open>-filter_complex\<close> section.
\<close>

definition graph_compiler :: "output_spec \<Rightarrow> string list" where
  "graph_compiler spec =
     (case spec of
        Output streams path kwargs \<Rightarrow>
          if path = ''/dev/null''
          then [''ffmpeg'', ''-f'', ''lavfi'', ''-i'', ''anullsrc'', ''-filter_complex'',
                ''[0:a]atrim=duration=3.4[s0];[s0][s1]amix=inputs=2[s2]'', ''-map'', ''[s2]'',
                ''-f'', ''null'', ''/dev/null'']
          else [''ffmpeg'', ''-i'', ''a.mp4'', ''-i'', ''b.mp4'', ''-filter_complex'',
                ''[0:v][1:v]xfade=duration=0.6[s0];[0:a][1:a]acrossfade=d=0.6[s1]'',
                ''-map'', ''[s0]'', ''-map'', ''[s1]'', path])"

definition bare_compiler :: "output_spec \<Rightarrow> string list" where
  "bare_compiler spec =
     (case spec of Output streams path kwargs \<Rightarrow> [''ffmpeg'', ''-i'', ''a.mp4'', path])"

definition example_env :: env where
  "example_env =
     \<lparr>LOCAL_STORAGE_PATH = ''/tmp'',
      REPO_ROOT = ''/app'',
      download_file = (\<lambda>url dest. Some (dest, url)),
      temp_random = ''k3'',
      abspath = (\<lambda>p. p),
      ffmpeg_probe = (\<lambda>p. Inr (ProbeData (Seconds (Num 2)) [Some ''video'', Some ''audio''])),
      compile = graph_compiler,
      engine = (\<lambda>job fl. \<lparr>returncode = 0, stderr = [], produced = Some ''mp4''\<rparr>)\<rparr>"

definition two_clips :: "(string \<times> string) list list" where
  "two_clips = [[(''video_url'', ''http://h/a.mp4'')], [(''video_url'', ''http://h/b.mp4'')]]"

definition empty_world :: world where
  "empty_world = \<lparr>files = Map.empty, jobs = []\<rparr>"

definition downloaded_world :: world where
  "downloaded_world =
     \<lparr>files = [''/tmp/job_input_0'' \<mapsto> ''http://h/a.mp4'',
               ''/tmp/job_input_1'' \<mapsto> ''http://h/b.mp4''],
      jobs = []\<rparr>"

definition asset_world :: world where
  "asset_world = \<lparr>files = [''/app/assets/audio/whip_pan_whoosh.mp3'' \<mapsto> ''mp3''], jobs = []\<rparr>"

section \<open>Properties\<close>

subsection \<open>Floats\<close>

lemma f_le_Num: "f_le (Num a) (Num b) \<longleftrightarrow> a \<le> b"
  by (auto simp: f_le_def)

lemma f_le_iff: "f_le (Num m) x \<longleftrightarrow> x \<noteq> NaN \<and> \<not> f_lt x (Num m)"
  by (cases x) (auto simp: f_le_def)

lemma py_min_Num: "py_min (Num a) (Num b) = Num (min a b)"
  by (auto simp: py_min_def min_def)

lemma py_max_Num: "py_max (Num a) (Num b) = Num (max a b)"
  by (auto simp: py_max_def f_gt_def max_def)

lemma f_sub_Num: "f_sub (Num a) (Num b) = Num (a - b)"
  by (simp add: f_sub_def)

lemma py_max_not_below: "\<not> f_lt (py_max a (Num m)) (Num m)"
  by (simp add: py_max_def f_gt_def)

lemma py_min_not_below: "\<not> f_lt a m \<Longrightarrow> \<not> f_lt b m \<Longrightarrow> \<not> f_lt (py_min a b) m"
  by (simp add: py_min_def)

lemma py_min_NaN: "py_min NaN b = NaN"
  by (simp add: py_min_def)

subsection \<open>TimingResolver\<close>

lemma effective_transition_duration_Num:
  "effective_transition_duration (Num r) (Num p) (Num n) =
     (if min r (max (min p n - 0.05) MIN_TRANSITION_DURATION) < MIN_TRANSITION_DURATION
      then Inl (ValueError TOO_LONG_MESSAGE)
      else Inr (Num (min r (max (min p n - 0.05) MIN_TRANSITION_DURATION))))"
  by (auto simp: effective_transition_duration_def Let_def py_min_Num py_max_Num f_sub_Num)

lemma effective_transition_duration_value:
  "\<not> f_lt requested (Num MIN_TRANSITION_DURATION) \<Longrightarrow>
   effective_transition_duration requested previous_tail next_clip =
     Inr (py_min requested
            (py_max (f_sub (py_min previous_tail next_clip) (Num 0.05))
               (Num MIN_TRANSITION_DURATION)))"
  by (simp add: effective_transition_duration_def Let_def py_min_not_below py_max_not_below)

lemma effective_transition_duration_returns:
  assumes "\<not> f_lt requested (Num MIN_TRANSITION_DURATION)"
  obtains v where "effective_transition_duration requested previous_tail next_clip = Inr v"
  using effective_transition_duration_value [OF assms] by blast

lemma normalize_transition_duration_not_below:
  "\<not> f_lt (normalize_transition_duration v) (Num MIN_TRANSITION_DURATION)"
  by (simp add: normalize_transition_duration_def MIN_TRANSITION_DURATION_def
      MAX_TRANSITION_DURATION_def)

lemma normalize_transition_duration_NaN:
  "normalize_transition_duration v = NaN \<longleftrightarrow> v = NaN"
  by (cases v) (auto simp: normalize_transition_duration_def f_gt_def)

text \<open>
  Claim C1, as amended. For a requested duration of 5.0 seconds between two clips of 1.0
  second each the timing resolution does not fail: the request is clamped to the safe
  cap \<open>max (1.0 - 0.05) 0.2\<close> and 0.95 is returned.
\<close>

theorem effective_5_1_1_clamped:
  "effective_transition_duration (Num 5.0) (Num 1.0) (Num 1.0) = Inr (Num 0.95)"
  by (simp add: effective_transition_duration_Num MIN_TRANSITION_DURATION_def)

text \<open>
  Claim C1 as stated fails: at 5.0, 1.0, 1.0 the result is not the error.
\<close>

theorem effective_5_1_1_no_error:
  "effective_transition_duration (Num 5.0) (Num 1.0) (Num 1.0)
     \<noteq> Inl (ValueError TOO_LONG_MESSAGE)"
  by (simp add: effective_transition_duration_Num MIN_TRANSITION_DURATION_def)




subsection \<open>TransitionPlanner\<close>

text \<open>
  Claim C6, as amended. For two or more clips, every non-empty explicit sequence whose
  length differs from the number of boundaries fails with the error of
  \<open>LENGTH_MESSAGE\<close>; the empty sequence is taken as no sequence and gives the default
  transition at every boundary.
\<close>

theorem build_transition_plan_wrong_length:
  assumes "2 \<le> clip_count"
  shows "(sq \<noteq> [] \<and> int (length sq) \<noteq> clip_count - 1 \<longrightarrow>
            build_transition_plan clip_count default_transition (Some sq)
              = Inl (ValueError LENGTH_MESSAGE))
         \<and> build_transition_plan clip_count default_transition (Some [])
              = Inr (replicate (nat (clip_count - 1)) default_transition)"
  using assms by (simp add: build_transition_plan_def)

text \<open>Claim C6 at three clips: a sequence of one entry fails, the empty one does not.\<close>

theorem build_transition_plan_wrong_length_witness:
  "(2::int) \<le> 3 \<and> [Some ''fade''] \<noteq> [] \<and> int (length [Some ''fade'']) \<noteq> 3 - 1
   \<and> build_transition_plan 3 ''none'' (Some [Some ''fade'']) = Inl (ValueError LENGTH_MESSAGE)
   \<and> build_transition_plan 3 ''none'' (Some []) = Inr [''none'', ''none'']"
proof -
  have h: "(2::int) \<le> 3" by simp
  have r: "replicate (nat (3 - 1)) ''none'' = [''none'', ''none'']"
    by (simp add: numeral_2_eq_2)
  show ?thesis
    using h build_transition_plan_wrong_length [OF h, of "[Some ''fade'']" "''none''"] r
    by simp
qed

text \<open>
  Claim C6 as stated fails on the empty sequence: with two clips its length differs from
  the one boundary, and the plan is built.
\<close>

theorem empty_sequence_counterexample:
  "(2::int) \<le> 2 \<and> int (length ([] :: string option list)) \<noteq> 2 - 1
   \<and> build_transition_plan 2 ''fade'' (Some []) = Inr [''fade'']"
  by (simp add: build_transition_plan_def)


lemma catalog_keys:
  "fst ` set SUPPORTED_TRANSITION_TYPES =
     {''none'', ''fade'', ''fade_black'', ''wipe_left'', ''wipe_right'', ''smooth_left'',
      ''smooth_right'', ''whip_pan'', ''circle_open'', ''circle_close'', ''pixelize''}"
  by (simp add: SUPPORTED_TRANSITION_TYPES_def)





subsection \<open>Which errors a job can raise\<close>

text \<open>
  No step of the job other than the timing resolution produces the error of
  \<open>TOO_LONG_MESSAGE\<close>, and the timing resolution does not produce it for a duration that
  is not below \<open>MIN_TRANSITION_DURATION\<close>, which is what the normalisation returns.
\<close>

lemma normalize_transition_type_other_error:
  "normalize_transition_type r \<noteq> Inl (ValueError TOO_LONG_MESSAGE)"
  by (simp add: normalize_transition_type_def Let_def unsupported_message_def TOO_LONG_MESSAGE_def)

lemma normalize_entries_other_error:
  "normalize_entries sq \<noteq> Inl (ValueError TOO_LONG_MESSAGE)"
proof (induction sq)
  case Nil
  then show ?case by simp
next
  case (Cons r sq)
  have "NONE_ENTRY_MESSAGE \<noteq> TOO_LONG_MESSAGE"
    by (simp add: NONE_ENTRY_MESSAGE_def TOO_LONG_MESSAGE_def)
  with Cons normalize_transition_type_other_error [of r] show ?case
    by (auto split: sum.splits)
qed

lemma build_transition_plan_other_error:
  "build_transition_plan n d sq \<noteq> Inl (ValueError TOO_LONG_MESSAGE)"
proof -
  have "LENGTH_MESSAGE \<noteq> TOO_LONG_MESSAGE"
    by (simp add: LENGTH_MESSAGE_def TOO_LONG_MESSAGE_def)
  with normalize_entries_other_error show ?thesis
    by (auto simp: build_transition_plan_def split: option.splits)
qed

lemma probe_media_other_error:
  "probe_media e path \<noteq> Inl (ValueError TOO_LONG_MESSAGE)"
  by (auto simp: probe_media_def TOO_LONG_MESSAGE_def
      split: sum.splits probe_data.splits duration_field.splits)

lemma probe_streams_other_error:
  "probe_streams e paths \<noteq> Inl (ValueError TOO_LONG_MESSAGE)"
proof (induction paths)
  case Nil
  then show ?case by simp
next
  case (Cons p paths)
  with probe_media_other_error [of e p] show ?case
    by (auto simp: Let_def split: sum.splits prod.splits)
qed

lemma round_float_other_error:
  "round_float x \<noteq> Inl (ValueError TOO_LONG_MESSAGE)"
  by (cases x) (simp_all add: TOO_LONG_MESSAGE_def)

lemma build_whip_pan_sound_effect_other_error:
  "build_whip_pan_sound_effect e fl offset d gain_db \<noteq> Inl (ValueError TOO_LONG_MESSAGE)"
  using round_float_other_error [of "f_mul offset (Num 1000)"]
  by (auto simp: build_whip_pan_sound_effect_def Let_def split: sum.splits)

lemma apply_whip_pan_audio_other_error:
  "apply_whip_pan_audio e fl leading_audio trailing_audio d offset gain_db
     \<noteq> Inl (ValueError TOO_LONG_MESSAGE)"
  using build_whip_pan_sound_effect_other_error [of e fl offset d gain_db]
  by (auto simp: apply_whip_pan_audio_def Let_def split: sum.splits option.splits)

lemma transition_step_other_error:
  assumes "\<not> f_lt td (Num MIN_TRANSITION_DURATION)"
  shows "transition_step e fl plan td gain tid idx next_stream st
           \<noteq> Inl (ValueError TOO_LONG_MESSAGE)"
proof (cases "item plan (idx - 1)")
  case (Inl x)
  then show ?thesis
    by (simp add: transition_step_def item_def split: if_splits)
next
  case (Inr key)
  have m: "NONE_IN_PLAN_MESSAGE \<noteq> TOO_LONG_MESSAGE"
    by (simp add: NONE_IN_PLAN_MESSAGE_def TOO_LONG_MESSAGE_def)
  obtain v where v: "effective_transition_duration td (trailing_clip_duration st)
      (duration next_stream) = Inr v"
    using assms by (rule effective_transition_duration_returns)
  show ?thesis
  proof (cases "key = ''whip_pan''")
    case True
    with Inr v
      build_whip_pan_sound_effect_other_error
        [of e fl "py_max (f_sub (cumulative_duration st) v) (Num 0)" v gain]
      apply_whip_pan_audio_other_error
        [of e fl "current_audio st" "audio next_stream" v
          "py_max (f_sub (cumulative_duration st) v) (Num 0)" gain]
    show ?thesis
      by (auto simp: transition_step_def Let_def split: option.splits sum.splits)
  next
    case False
    with Inr v m show ?thesis
      by (simp add: transition_step_def Let_def split: option.splits)
  qed
qed

lemma fold_boundaries_other_error:
  assumes "\<not> f_lt td (Num MIN_TRANSITION_DURATION)"
  shows "fold_boundaries e fl plan td gain tid idx rest st \<noteq> Inl (ValueError TOO_LONG_MESSAGE)"
proof (induction rest arbitrary: idx st)
  case Nil
  then show ?case by simp
next
  case (Cons m rest)
  with transition_step_other_error [OF assms, of e fl plan gain tid idx m st] show ?case
    by (auto split: sum.splits)
qed

lemma transitions_job_error:
  "transitions_job e st out tid = Inl x \<Longrightarrow> x = IndexError"
  by (auto simp: transitions_job_def Let_def item_def split: if_splits option.splits sum.splits)

lemma run_job_other_error:
  "fst (run_job e job out w) \<noteq> Inl (ValueError y)"
  by (auto simp: run_job_def Let_def split: engine_job.splits)

lemma concatenate_with_transitions_other_error:
  assumes "\<not> f_lt td (Num MIN_TRANSITION_DURATION)"
  shows "fst (concatenate_with_transitions e input_files out plan td gain tid w)
           \<noteq> Inl (ValueError TOO_LONG_MESSAGE)"
  using probe_streams_other_error [of e input_files]
    fold_boundaries_other_error [OF assms]
    run_job_other_error
  by (auto simp: concatenate_with_transitions_def split: sum.splits list.splits
      dest: transitions_job_error)

lemma concatenate_with_concat_demuxer_other_error:
  "fst (concatenate_with_concat_demuxer e input_files out w) \<noteq> Inl (ValueError y)"
  using run_job_other_error
  by (auto simp: concatenate_with_concat_demuxer_def Let_def split: prod.splits)
     (metis fst_conv)

lemma download_inputs_other_error:
  "fst (download_inputs e job_id i items acc w) \<noteq> Inl (ValueError y)"
  by (induction items arbitrary: i acc w) (auto split: option.splits)

lemma remove_inputs_other_error:
  "fst (remove_inputs fs w) \<noteq> Inl (ValueError y)"
  by (induction fs arbitrary: w) (auto simp: os_remove_def split: prod.splits sum.splits if_splits)

lemma process_type_error:
  "normalize_transition_type tt = Inl x \<Longrightarrow>
   process_video_concatenate e media_urls job_id tt td sq gain tid w = (Inl x, w)"
  by (simp add: process_video_concatenate_def)

lemma process_download_error:
  "normalize_transition_type tt = Inr vt \<Longrightarrow>
   download_inputs e job_id 0 media_urls [] w = (Inl x, w1) \<Longrightarrow>
   process_video_concatenate e media_urls job_id tt td sq gain tid w = (Inl x, w1)"
  by (simp add: process_video_concatenate_def)

lemma process_plan_error:
  "normalize_transition_type tt = Inr vt \<Longrightarrow>
   download_inputs e job_id 0 media_urls [] w = (Inr input_files, w1) \<Longrightarrow>
   build_transition_plan (int (length input_files)) vt sq = Inl x \<Longrightarrow>
   process_video_concatenate e media_urls job_id tt td sq gain tid w = (Inl x, w1)"
  by (simp add: process_video_concatenate_def)

lemma process_concatenation_error:
  "normalize_transition_type tt = Inr vt \<Longrightarrow>
   download_inputs e job_id 0 media_urls [] w = (Inr input_files, w1) \<Longrightarrow>
   build_transition_plan (int (length input_files)) vt sq = Inr plan \<Longrightarrow>
   (if should_apply_transitions plan
    then concatenate_with_transitions e input_files
           (path_join (LOCAL_STORAGE_PATH e) (job_id @ ''.mp4'')) plan
           (normalize_transition_duration td) (normalize_whip_pan_sfx_gain_db gain)
           (normalize_transition_sfx_track_id tid) w1
    else concatenate_with_concat_demuxer e input_files
           (path_join (LOCAL_STORAGE_PATH e) (job_id @ ''.mp4'')) w1) = (Inl x, w2) \<Longrightarrow>
   process_video_concatenate e media_urls job_id tt td sq gain tid w = (Inl x, w2)"
  by (simp add: process_video_concatenate_def Let_def)

lemma process_concatenation_done:
  "normalize_transition_type tt = Inr vt \<Longrightarrow>
   download_inputs e job_id 0 media_urls [] w = (Inr input_files, w1) \<Longrightarrow>
   build_transition_plan (int (length input_files)) vt sq = Inr plan \<Longrightarrow>
   (if should_apply_transitions plan
    then concatenate_with_transitions e input_files
           (path_join (LOCAL_STORAGE_PATH e) (job_id @ ''.mp4'')) plan
           (normalize_transition_duration td) (normalize_whip_pan_sfx_gain_db gain)
           (normalize_transition_sfx_track_id tid) w1
    else concatenate_with_concat_demuxer e input_files
           (path_join (LOCAL_STORAGE_PATH e) (job_id @ ''.mp4'')) w1) = (Inr u, w2) \<Longrightarrow>
   process_video_concatenate e media_urls job_id tt td sq gain tid w =
     (case remove_inputs input_files w2 of
        (Inl x, w3) \<Rightarrow> (Inl x, w3)
      | (Inr u', w3) \<Rightarrow>
          if path_join (LOCAL_STORAGE_PATH e) (job_id @ ''.mp4'') \<notin> dom (files w3)
          then (Inl (FileNotFoundError (''Output file ''
                  @ path_join (LOCAL_STORAGE_PATH e) (job_id @ ''.mp4'')
                  @ '' does not exist after combination.'')), w3)
          else (Inr (path_join (LOCAL_STORAGE_PATH e) (job_id @ ''.mp4'')), w3))"
  by (simp add: process_video_concatenate_def Let_def)

lemma process_other_error:
  "fst (process_video_concatenate e media_urls job_id tt td sq gain tid w)
     \<noteq> Inl (ValueError TOO_LONG_MESSAGE)"
proof (cases "normalize_transition_type tt")
  case (Inl x)
  with normalize_transition_type_other_error [of tt] show ?thesis
    by (simp add: process_type_error)
next
  case vt: (Inr vt)
  obtain r1 w1 where dl: "download_inputs e job_id 0 media_urls [] w = (r1, w1)"
    by (cases "download_inputs e job_id 0 media_urls [] w")
  show ?thesis
  proof (cases r1)
    case (Inl x)
    with download_inputs_other_error [of e job_id 0 media_urls "[]" w] vt dl show ?thesis
      by (simp add: process_download_error)
  next
    case fl: (Inr input_files)
    show ?thesis
    proof (cases "build_transition_plan (int (length input_files)) vt sq")
      case (Inl x)
      with build_transition_plan_other_error [of "int (length input_files)" vt sq] vt dl fl
      show ?thesis
        by (simp add: process_plan_error)
    next
      case plan: (Inr plan)
      let ?out = "path_join (LOCAL_STORAGE_PATH e) (job_id @ ''.mp4'')"
      let ?step = "if should_apply_transitions plan
          then concatenate_with_transitions e input_files ?out plan
                 (normalize_transition_duration td) (normalize_whip_pan_sfx_gain_db gain)
                 (normalize_transition_sfx_track_id tid) w1
          else concatenate_with_concat_demuxer e input_files ?out w1"
      note td = normalize_transition_duration_not_below [of td]
      have step: "fst ?step \<noteq> Inl (ValueError TOO_LONG_MESSAGE)"
        using concatenate_with_transitions_other_error [OF td]
          concatenate_with_concat_demuxer_other_error
        by simp
      obtain r2 w2 where st: "?step = (r2, w2)"
        by (cases ?step)
      show ?thesis
      proof (cases r2)
        case (Inl x)
        with step st have "x \<noteq> ValueError TOO_LONG_MESSAGE" by auto
        with process_concatenation_error [OF vt dl [unfolded fl] plan st [unfolded Inl]]
        show ?thesis by simp
      next
        case (Inr u)
        obtain r3 w3 where rm: "remove_inputs input_files w2 = (r3, w3)"
          by (cases "remove_inputs input_files w2")
        with remove_inputs_other_error [of input_files w2 TOO_LONG_MESSAGE]
        have "r3 \<noteq> Inl (ValueError TOO_LONG_MESSAGE)" by simp
        with process_concatenation_done [OF vt dl [unfolded fl] plan st [unfolded Inr]] rm
        show ?thesis
          by (cases r3) auto
      qed
    qed
  qed
qed

text \<open>
  Claim C3, as amended. \<open>_normalize_transition_duration\<close> returns NaN for NaN, since both
  of its comparisons are false, and a value of at least \<open>MIN_TRANSITION_DURATION\<close> for
  every other value. For a requested duration of at least \<open>MIN_TRANSITION_DURATION\<close>, and
  for NaN as well, the timing resolution does not raise, whatever the two clip lengths
  are: it returns \<open>min(requested, max(min(previous_tail, next_clip) - 0.05, 0.2))\<close>, which
  is at least 0.2 for a request of at least 0.2 and is NaN for NaN. So no call of
  \<open>process_video_concatenate\<close>, with whatever duration, ends with the error of the timing
  resolution.
\<close>

theorem too_long_unreachable:
  "normalize_transition_duration NaN = NaN
   \<and> (transition_duration \<noteq> NaN \<longrightarrow>
        f_le (Num MIN_TRANSITION_DURATION) (normalize_transition_duration transition_duration))
   \<and> (f_le (Num MIN_TRANSITION_DURATION) requested \<or> requested = NaN \<longrightarrow>
        effective_transition_duration requested previous_tail next_clip
          = Inr (py_min requested
                   (py_max (f_sub (py_min previous_tail next_clip) (Num 0.05)) (Num 0.2))))
   \<and> (f_le (Num MIN_TRANSITION_DURATION) requested \<longrightarrow>
        f_le (Num 0.2)
          (py_min requested
             (py_max (f_sub (py_min previous_tail next_clip) (Num 0.05)) (Num 0.2))))
   \<and> effective_transition_duration NaN previous_tail next_clip = Inr NaN
   \<and> fst (process_video_concatenate e media_urls job_id transition_type transition_duration
             transition_sequence whip_pan_sfx_gain_db transition_sfx_track_id w)
        \<noteq> Inl (ValueError TOO_LONG_MESSAGE)"
proof -
  let ?cap = "py_max (f_sub (py_min previous_tail next_clip) (Num 0.05)) (Num 0.2)"
  have a: "normalize_transition_duration NaN = NaN"
    by (simp add: normalize_transition_duration_NaN)
  have b: "f_le (Num MIN_TRANSITION_DURATION) (normalize_transition_duration transition_duration)"
    if "transition_duration \<noteq> NaN"
    using that normalize_transition_duration_not_below [of transition_duration]
    by (simp add: f_le_iff normalize_transition_duration_NaN)
  have c: "effective_transition_duration requested previous_tail next_clip
          = Inr (py_min requested ?cap)"
    if "f_le (Num MIN_TRANSITION_DURATION) requested \<or> requested = NaN"
  proof -
    from that have "\<not> f_lt requested (Num MIN_TRANSITION_DURATION)"
      by (auto simp: f_le_iff)
    from effective_transition_duration_value [OF this] show ?thesis
      by (simp add: MIN_TRANSITION_DURATION_def)
  qed
  have d: "f_le (Num 0.2) (py_min requested ?cap)"
    if "f_le (Num MIN_TRANSITION_DURATION) requested"
  proof -
    from that have r: "requested \<noteq> NaN" "\<not> f_lt requested (Num 0.2)"
      by (simp_all add: f_le_iff MIN_TRANSITION_DURATION_def)
    have cap: "\<not> f_lt ?cap (Num 0.2)"
      by (rule py_max_not_below)
    have "py_min requested ?cap \<noteq> NaN"
      using r(1) by (cases ?cap) (auto simp: py_min_def)
    with py_min_not_below [OF r(2) cap] show ?thesis
      by (simp add: f_le_iff)
  qed
  have n: "effective_transition_duration NaN previous_tail next_clip = Inr NaN"
    using effective_transition_duration_value [of NaN previous_tail next_clip]
    by (simp add: py_min_NaN)
  from a b c d n process_other_error show ?thesis by blast
qed

text \<open>
  Claim C3 at a request of 0.2 seconds between two clips of 0.1 seconds, at the
  normalisation of 0.01, and for a job of two clips with a fade whose duration is NaN.
\<close>

theorem too_long_unreachable_witness:
  "f_le (Num MIN_TRANSITION_DURATION) (Num 0.2)
   \<and> effective_transition_duration (Num 0.2) (Num 0.1) (Num 0.1) = Inr (Num 0.2)
   \<and> f_le (Num MIN_TRANSITION_DURATION) (normalize_transition_duration (Num 0.01))
   \<and> effective_transition_duration NaN (Num 2) (Num 2) = Inr NaN
   \<and> fst (process_video_concatenate example_env two_clips ''job'' (Some ''fade'') NaN None
            (Num (- 6)) None empty_world) \<noteq> Inl (ValueError TOO_LONG_MESSAGE)"
proof -
  have h1: "f_le (Num MIN_TRANSITION_DURATION) (Num 0.2)"
    by (simp add: f_le_Num MIN_TRANSITION_DURATION_def)
  have h2: "Num 0.01 \<noteq> NaN"
    by simp
  have m: "py_min (Num 0.2) (py_max (f_sub (py_min (Num 0.1) (Num 0.1)) (Num 0.05)) (Num 0.2))
      = Num 0.2"
    by (simp add: py_min_Num py_max_Num f_sub_Num)
  note inst = too_long_unreachable [where requested = "Num 0.2" and previous_tail = "Num 0.1"
      and next_clip = "Num 0.1" and transition_duration = "Num 0.01"]
  from inst h1 have "effective_transition_duration (Num 0.2) (Num 0.1) (Num 0.1) = Inr (Num 0.2)"
    unfolding m by blast
  moreover
  from inst h2
  have "f_le (Num MIN_TRANSITION_DURATION) (normalize_transition_duration (Num 0.01))"
    by blast
  moreover
  from too_long_unreachable [where previous_tail = "Num 2" and next_clip = "Num 2"]
  have "effective_transition_duration NaN (Num 2) (Num 2) = Inr NaN"
    by blast
  moreover
  from too_long_unreachable [where e = example_env and media_urls = two_clips
      and job_id = "''job''" and transition_type = "Some ''fade''" and transition_duration = NaN
      and transition_sequence = None and whip_pan_sfx_gain_db = "Num (- 6)"
      and transition_sfx_track_id = None and w = empty_world]
  have "fst (process_video_concatenate example_env two_clips ''job'' (Some ''fade'') NaN None
      (Num (- 6)) None empty_world) \<noteq> Inl (ValueError TOO_LONG_MESSAGE)"
    by blast
  ultimately show ?thesis using h1 by (intro conjI)
qed

text \<open>
  Claim C3 as stated fails at NaN: the normalisation returns it unchanged, and it is not
  at least \<open>MIN_TRANSITION_DURATION\<close>.
\<close>

theorem normalize_nan_counterexample:
  "normalize_transition_duration NaN = NaN
   \<and> \<not> f_le (Num MIN_TRANSITION_DURATION) (normalize_transition_duration NaN)"
  by (simp add: normalize_transition_duration_def f_gt_def f_le_def)

subsection \<open>Simple concatenation\<close>



lemma remove_inputs_jobs:
  "jobs (snd (remove_inputs fs w)) = jobs w"
  by (induction fs arbitrary: w) (auto simp: os_remove_def split: prod.splits sum.splits)





lemma process_done_world:
  assumes "normalize_transition_type tt = Inr vt"
    and "download_inputs e job_id 0 media_urls [] w = (Inr input_files, w1)"
    and "build_transition_plan (int (length input_files)) vt sq = Inr plan"
    and "(if should_apply_transitions plan
          then concatenate_with_transitions e input_files
                 (path_join (LOCAL_STORAGE_PATH e) (job_id @ ''.mp4'')) plan
                 (normalize_transition_duration td) (normalize_whip_pan_sfx_gain_db gain)
                 (normalize_transition_sfx_track_id tid) w1
          else concatenate_with_concat_demuxer e input_files
                 (path_join (LOCAL_STORAGE_PATH e) (job_id @ ''.mp4'')) w1) = (Inr u, w2)"
  shows "snd (process_video_concatenate e media_urls job_id tt td sq gain tid w)
           = snd (remove_inputs input_files w2)"
  by (simp add: process_concatenation_done [OF assms] split: prod.splits sum.splits)

lemma process_jobs:
  assumes vt: "normalize_transition_type tt = Inr vt"
    and dl: "download_inputs e job_id 0 media_urls [] w = (Inr input_files, w1)"
    and plan: "build_transition_plan (int (length input_files)) vt sq = Inr plan"
  shows "jobs (snd (process_video_concatenate e media_urls job_id tt td sq gain tid w)) =
     jobs (snd (if should_apply_transitions plan
          then concatenate_with_transitions e input_files
                 (path_join (LOCAL_STORAGE_PATH e) (job_id @ ''.mp4'')) plan
                 (normalize_transition_duration td) (normalize_whip_pan_sfx_gain_db gain)
                 (normalize_transition_sfx_track_id tid) w1
          else concatenate_with_concat_demuxer e input_files
                 (path_join (LOCAL_STORAGE_PATH e) (job_id @ ''.mp4'')) w1))"
    (is "_ = jobs (snd ?step)")
proof -
  obtain r2 w2 where st: "?step = (r2, w2)"
    by (cases ?step)
  show ?thesis
  proof (cases r2)
    case (Inl x)
    from process_concatenation_error [OF vt dl plan st [unfolded Inl]] st
    show ?thesis by simp
  next
    case (Inr u)
    from process_done_world [OF vt dl plan st [unfolded Inr]] st
      remove_inputs_jobs [of input_files w2]
    show ?thesis by simp
  qed
qed


lemma str_int_0: "str_int 0 = ''0''"
  by code_simp

lemma str_int_1: "str_int 1 = ''1''"
  by code_simp

lemma example_downloads:
  assumes "LOCAL_STORAGE_PATH e = ''/tmp''" and "download_file e = (\<lambda>url dest. Some (dest, url))"
  shows "download_inputs e ''job'' 0 two_clips [] w =
           (Inr [''/tmp/job_input_0'', ''/tmp/job_input_1''],
            w\<lparr>files := (files w)(''/tmp/job_input_0'' \<mapsto> ''http://h/a.mp4'',
                                   ''/tmp/job_input_1'' \<mapsto> ''http://h/b.mp4'')\<rparr>)"
  by (simp add: two_clips_def path_join_def str_int_0 str_int_1 assms)

lemma example_output_path:
  "LOCAL_STORAGE_PATH e = ''/tmp'' \<Longrightarrow>
   path_join (LOCAL_STORAGE_PATH e) (''job'' @ ''.mp4'') = ''/tmp/job.mp4''"
  by (simp add: path_join_def)


subsection \<open>Whip pan without the sound asset\<close>














lemma lower_whip_pan: "lower ''whip_pan'' = ''whip_pan''"
  by code_simp

lemma normalize_whip_pan: "normalize_transition_type (Some ''whip_pan'') = Inr ''whip_pan''"
  by (simp add: normalize_transition_type_def Let_def lower_whip_pan catalog_keys)

lemma example_downloads_empty:
  assumes "LOCAL_STORAGE_PATH e = ''/tmp''" and "download_file e = (\<lambda>url dest. Some (dest, url))"
  shows "download_inputs e ''job'' 0 two_clips [] empty_world =
           (Inr [''/tmp/job_input_0'', ''/tmp/job_input_1''], downloaded_world)"
  by (simp add: example_downloads [OF assms] empty_world_def downloaded_world_def)

lemma example_probes:
  assumes "ffmpeg_probe e =
             (\<lambda>p. Inr (ProbeData (Seconds (Num 2)) [Some ''video'', Some ''audio'']))"
  shows "probe_streams e [''/tmp/job_input_0'', ''/tmp/job_input_1''] =
     Inr [\<lparr>video = Input ''/tmp/job_input_0'' [] (Some ''v''),
            audio = Input ''/tmp/job_input_0'' [] (Some ''a''), duration = Num 2\<rparr>,
          \<lparr>video = Input ''/tmp/job_input_1'' [] (Some ''v''),
            audio = Input ''/tmp/job_input_1'' [] (Some ''a''), duration = Num 2\<rparr>]"
  by (simp add: probe_media_def assms)


lemma example_finish_present:
  assumes "files w2 ''/tmp/job_input_0'' = Some a" and "files w2 ''/tmp/job_input_1'' = Some b"
    and "files w2 ''/tmp/job.mp4'' = Some c"
  shows "fst (case remove_inputs [''/tmp/job_input_0'', ''/tmp/job_input_1''] w2 of
            (Inl x, w3) \<Rightarrow> (Inl x, w3)
          | (Inr u', w3) \<Rightarrow>
              if ''/tmp/job.mp4'' \<notin> dom (files w3)
              then (Inl (FileNotFoundError (''Output file '' @ ''/tmp/job.mp4''
                      @ '' does not exist after combination.'')), w3)
              else (Inr ''/tmp/job.mp4'', w3))
         = Inr ''/tmp/job.mp4''"
  using assms by (simp add: os_remove_def dom_def)


subsection \<open>The merge of the SFX graph\<close>

lemma find_arg_None_iff: "find_arg a xs = None \<longleftrightarrow> a \<notin> set xs"
  by (induction xs) auto

lemma multitrack_command_sentinel:
  "search_final_sfx_label (sub_sfx_labels sf) = None \<Longrightarrow>
   mf @ '';'' @ rstrip (CHR '';'') (sub_sfx_labels sf) @ ''[sfx]''
     \<in> set (multitrack_command cmd i mf sf out kw)"
  by (simp add: multitrack_command_def Let_def)

lemma find_arg_bound: "find_arg a xs = Some i \<Longrightarrow> i < length xs \<and> xs ! i = a"
  by (induction xs arbitrary: i) (auto split: if_splits)

lemma find_arg_last:
  assumes "find_arg a xs = Some i" and "item xs (i + 1) = Inl x"
  shows "x = IndexError \<and> xs \<noteq> [] \<and> last xs = a"
proof -
  from find_arg_bound [OF assms(1)] have i: "i < length xs" "xs ! i = a"
    by simp_all
  from assms(2) have x: "x = IndexError" and "\<not> i + 1 < length xs"
    by (simp_all add: item_def split: if_splits)
  with i(1) have "i = length xs - 1" and ne: "xs \<noteq> []"
    by auto
  with i(2) have "last xs = a"
    by (simp add: last_conv_nth)
  with x ne show ?thesis by simp
qed

lemma transitions_job_error_last:
  assumes "transitions_job e st out tid = Inl x"
  shows "x = IndexError
    \<and> (last (compile e (video_audio_output st out)) = ''-filter_complex''
        \<or> last (compile e (sfx_output st)) = ''-filter_complex'')"
proof -
  let ?cmd = "compile e (video_audio_output st out)"
  let ?sfx = "compile e (sfx_output st)"
  from assms obtain i j where i: "find_arg ''-filter_complex'' ?cmd = Some i"
    and j: "find_arg ''-filter_complex'' ?sfx = Some j"
    and x: "item ?cmd (i + 1) = Inl x \<or> item ?sfx (j + 1) = Inl x"
    by (auto simp: transitions_job_def Let_def split: if_splits option.splits sum.splits)
  from x show ?thesis
    using find_arg_last [OF i] find_arg_last [OF j] by blast
qed

text \<open>
  Claim C5, as amended. With a track id and at least one collected effect: when
  \<open>-filter_complex\<close> is missing from either compiled command, the job handed to the engine
  is the ordinary video and main-audio output, with no SFX track; when both are found,
  the command with three mapped outputs is built, and a missing terminal label in the SFX
  graph only appends \<open>[sfx]\<close> to its text; the one error the merge raises is
  \<open>IndexError\<close>, and it raises it only when \<open>-filter_complex\<close> is the last token of one of
  the two compiled commands.
\<close>

theorem sfx_merge_outcomes:
  assumes "tid \<noteq> None" and "sfx_streams st \<noteq> []"
  shows "(''-filter_complex'' \<notin> set (compile e (video_audio_output st out))
          \<or> ''-filter_complex'' \<notin> set (compile e (sfx_output st)) \<longrightarrow>
            transitions_job e st out tid = Inr (RunStream (video_audio_output st out)))
    \<and> (find_arg ''-filter_complex'' (compile e (video_audio_output st out)) = Some i
        \<and> find_arg ''-filter_complex'' (compile e (sfx_output st)) = Some j
        \<and> item (compile e (video_audio_output st out)) (i + 1) = Inr mf
        \<and> item (compile e (sfx_output st)) (j + 1) = Inr sf \<longrightarrow>
            transitions_job e st out tid =
              Inr (RunCommand (multitrack_command (compile e (video_audio_output st out)) i mf sf
                                 out final_output_kwargs))
            \<and> (search_final_sfx_label (sub_sfx_labels sf) = None \<longrightarrow>
                 mf @ '';'' @ rstrip (CHR '';'') (sub_sfx_labels sf) @ ''[sfx]''
                   \<in> set (multitrack_command (compile e (video_audio_output st out)) i mf sf
                            out final_output_kwargs)))
    \<and> (transitions_job e st out tid = Inl x \<longrightarrow>
         x = IndexError
         \<and> (last (compile e (video_audio_output st out)) = ''-filter_complex''
             \<or> last (compile e (sfx_output st)) = ''-filter_complex''))"
proof -
  have a: "transitions_job e st out tid = Inr (RunStream (video_audio_output st out))"
    if "''-filter_complex'' \<notin> set (compile e (video_audio_output st out))
          \<or> ''-filter_complex'' \<notin> set (compile e (sfx_output st))"
    using that assms
    by (auto simp: transitions_job_def Let_def find_arg_None_iff [symmetric]
        split: option.splits)
  have b: "transitions_job e st out tid =
              Inr (RunCommand (multitrack_command (compile e (video_audio_output st out)) i mf sf
                                 out final_output_kwargs))"
    if "find_arg ''-filter_complex'' (compile e (video_audio_output st out)) = Some i"
      "find_arg ''-filter_complex'' (compile e (sfx_output st)) = Some j"
      "item (compile e (video_audio_output st out)) (i + 1) = Inr mf"
      "item (compile e (sfx_output st)) (j + 1) = Inr sf"
    using that assms by (simp add: transitions_job_def Let_def)
  note c = multitrack_command_sentinel
    [of sf mf "compile e (video_audio_output st out)" i out final_output_kwargs]
  have d: "x = IndexError
         \<and> (last (compile e (video_audio_output st out)) = ''-filter_complex''
             \<or> last (compile e (sfx_output st)) = ''-filter_complex'')"
    if "transitions_job e st out tid = Inl x"
    using that by (rule transitions_job_error_last)
  from a b c d show ?thesis by blast
qed

lemma example_multitrack:
  "multitrack_command
     [''ffmpeg'', ''-i'', ''a.mp4'', ''-i'', ''b.mp4'', ''-filter_complex'',
      ''[0:v][1:v]xfade=duration=0.6[s0];[0:a][1:a]acrossfade=d=0.6[s1]'',
      ''-map'', ''[s0]'', ''-map'', ''[s1]'', ''/tmp/job.mp4'']
     5 ''[0:v][1:v]xfade=duration=0.6[s0];[0:a][1:a]acrossfade=d=0.6[s1]''
     ''[0:a]atrim=duration=3.4[s0];[s0][s1]amix=inputs=2[s2]'' ''/tmp/job.mp4''
     final_output_kwargs =
   [''ffmpeg'', ''-y'', ''-i'', ''a.mp4'', ''-i'', ''b.mp4'', ''-filter_complex'',
    ''[0:v][1:v]xfade=duration=0.6[s0];[0:a][1:a]acrossfade=d=0.6[s1];[0:a]atrim=duration=3.4[sfx0];[sfx0][sfx1]amix=inputs=2[sfx]'',
    ''-map'', ''[s0]'', ''-map'', ''[s1]'', ''-map'', ''[sfx]'', ''-vcodec'', ''libx264'',
    ''-pix_fmt'', ''yuv420p'', ''-movflags'', ''faststart'', ''-c:a'', ''aac'', ''/tmp/job.mp4'']"
  by code_simp

text \<open>
  Claim C5 on a state with one collected effect: a compiler without a
  \<open>-filter_complex\<close> section gives the fallback, one with the section gives the merged
  command.
\<close>

theorem sfx_merge_outcomes_witness:
  "(Some 0 :: int option) \<noteq> None
   \<and> sfx_streams \<lparr>current_video = Input ''a.mp4'' [] (Some ''v''),
                   current_audio = Input ''a.mp4'' [] (Some ''a''),
                   cumulative_duration = Num 3.4, trailing_clip_duration = Num 2,
                   sfx_streams = [(Input ''whoosh.mp3'' [] (Some ''a''), Num 1.4)]\<rparr> \<noteq> []
   \<and> transitions_job (example_env\<lparr>compile := bare_compiler\<rparr>)
        \<lparr>current_video = Input ''a.mp4'' [] (Some ''v''),
         current_audio = Input ''a.mp4'' [] (Some ''a''),
         cumulative_duration = Num 3.4, trailing_clip_duration = Num 2,
         sfx_streams = [(Input ''whoosh.mp3'' [] (Some ''a''), Num 1.4)]\<rparr> ''/tmp/job.mp4'' (Some 0)
       = Inr (RunStream (Output [Input ''a.mp4'' [] (Some ''v''), Input ''a.mp4'' [] (Some ''a'')]
                           ''/tmp/job.mp4'' final_output_kwargs))
   \<and> transitions_job example_env
        \<lparr>current_video = Input ''a.mp4'' [] (Some ''v''),
         current_audio = Input ''a.mp4'' [] (Some ''a''),
         cumulative_duration = Num 3.4, trailing_clip_duration = Num 2,
         sfx_streams = [(Input ''whoosh.mp3'' [] (Some ''a''), Num 1.4)]\<rparr> ''/tmp/job.mp4'' (Some 0)
       = Inr (RunCommand
           [''ffmpeg'', ''-y'', ''-i'', ''a.mp4'', ''-i'', ''b.mp4'', ''-filter_complex'',
            ''[0:v][1:v]xfade=duration=0.6[s0];[0:a][1:a]acrossfade=d=0.6[s1];[0:a]atrim=duration=3.4[sfx0];[sfx0][sfx1]amix=inputs=2[sfx]'',
            ''-map'', ''[s0]'', ''-map'', ''[s1]'', ''-map'', ''[sfx]'', ''-vcodec'', ''libx264'',
            ''-pix_fmt'', ''yuv420p'', ''-movflags'', ''faststart'', ''-c:a'', ''aac'',
            ''/tmp/job.mp4''])"
proof -
  let ?st = "\<lparr>current_video = Input ''a.mp4'' [] (Some ''v''),
         current_audio = Input ''a.mp4'' [] (Some ''a''),
         cumulative_duration = Num 3.4, trailing_clip_duration = Num 2,
         sfx_streams = [(Input ''whoosh.mp3'' [] (Some ''a''), Num 1.4)]\<rparr>"
  have h1: "(Some 0 :: int option) \<noteq> None" and h2: "sfx_streams ?st \<noteq> []"
    by simp_all
  have bare: "''-filter_complex'' \<notin> set (compile (example_env\<lparr>compile := bare_compiler\<rparr>)
      (video_audio_output ?st ''/tmp/job.mp4''))
      \<or> ''-filter_complex'' \<notin> set (compile (example_env\<lparr>compile := bare_compiler\<rparr>)
      (sfx_output ?st))"
    by (simp add: bare_compiler_def video_audio_output_def)
  note inst1 = sfx_merge_outcomes [OF h1 h2, where e = "example_env\<lparr>compile := bare_compiler\<rparr>"
      and out = "''/tmp/job.mp4''"]
  from conjunct1 [OF inst1, THEN mp, OF bare]
  have fallback: "transitions_job (example_env\<lparr>compile := bare_compiler\<rparr>) ?st ''/tmp/job.mp4''
      (Some 0) = Inr (RunStream (Output [Input ''a.mp4'' [] (Some ''v''),
         Input ''a.mp4'' [] (Some ''a'')] ''/tmp/job.mp4'' final_output_kwargs))"
    by (simp add: video_audio_output_def)
  have c1: "compile example_env (video_audio_output ?st ''/tmp/job.mp4'') =
      [''ffmpeg'', ''-i'', ''a.mp4'', ''-i'', ''b.mp4'', ''-filter_complex'',
       ''[0:v][1:v]xfade=duration=0.6[s0];[0:a][1:a]acrossfade=d=0.6[s1]'',
       ''-map'', ''[s0]'', ''-map'', ''[s1]'', ''/tmp/job.mp4'']"
    by (simp add: example_env_def graph_compiler_def video_audio_output_def)
  have c2: "compile example_env (sfx_output ?st) =
      [''ffmpeg'', ''-f'', ''lavfi'', ''-i'', ''anullsrc'', ''-filter_complex'',
       ''[0:a]atrim=duration=3.4[s0];[s0][s1]amix=inputs=2[s2]'', ''-map'', ''[s2]'',
       ''-f'', ''null'', ''/dev/null'']"
    by (simp add: example_env_def graph_compiler_def sfx_output_def)
  have found: "find_arg ''-filter_complex'' (compile example_env
        (video_audio_output ?st ''/tmp/job.mp4'')) = Some 5
      \<and> find_arg ''-filter_complex'' (compile example_env (sfx_output ?st)) = Some 5
      \<and> item (compile example_env (video_audio_output ?st ''/tmp/job.mp4'')) (5 + 1)
          = Inr ''[0:v][1:v]xfade=duration=0.6[s0];[0:a][1:a]acrossfade=d=0.6[s1]''
      \<and> item (compile example_env (sfx_output ?st)) (5 + 1)
          = Inr ''[0:a]atrim=duration=3.4[s0];[s0][s1]amix=inputs=2[s2]''"
    unfolding c1 c2 by (simp add: item_def)
  note inst2 = sfx_merge_outcomes [OF h1 h2, where e = example_env and out = "''/tmp/job.mp4''"
      and i = 5 and j = 5
      and mf = "''[0:v][1:v]xfade=duration=0.6[s0];[0:a][1:a]acrossfade=d=0.6[s1]''"
      and sf = "''[0:a]atrim=duration=3.4[s0];[s0][s1]amix=inputs=2[s2]''"]
  from conjunct1 [OF conjunct2 [OF inst2], THEN mp, OF found]
  have merged: "transitions_job example_env ?st ''/tmp/job.mp4'' (Some 0) =
      Inr (RunCommand (multitrack_command
        (compile example_env (video_audio_output ?st ''/tmp/job.mp4'')) 5
        ''[0:v][1:v]xfade=duration=0.6[s0];[0:a][1:a]acrossfade=d=0.6[s1]''
        ''[0:a]atrim=duration=3.4[s0];[s0][s1]amix=inputs=2[s2]'' ''/tmp/job.mp4''
        final_output_kwargs))"
    by (rule conjunct1)
  from h1 h2 fallback merged [unfolded c1 example_multitrack] show ?thesis
    by (intro conjI)
qed

lemma lower_fade: "lower ''fade'' = ''fade''"
  by code_simp

lemma normalize_fade: "normalize_transition_type (Some ''fade'') = Inr ''fade''"
  by (simp add: normalize_transition_type_def Let_def lower_fade catalog_keys)

lemma build_whip_pan_sound_effect_present:
  "WHIP_PAN_SFX_PATH e \<in> dom fl \<Longrightarrow>
   \<exists>s. build_whip_pan_sound_effect e fl (Num offset) d gain_db = Inr (Some s)"
  by (simp add: build_whip_pan_sound_effect_def Let_def)

lemma should_apply_whip_pan: "should_apply_transitions [''whip_pan''] = True"
  by (simp add: should_apply_transitions_def)

lemma should_apply_fade: "should_apply_transitions [''fade''] = True"
  by (simp add: should_apply_transitions_def)

lemma effective_06_2_2:
  "effective_transition_duration (Num 0.6) (Num 2) (Num 2) = Inr (Num 0.6)"
  by (simp add: effective_transition_duration_Num MIN_TRANSITION_DURATION_def)

text \<open>
  Claim C5 as stated fails: with track id 0, the asset present and a whip pan between two
  clips, a compiled command without \<open>-filter_complex\<close> does not abort the job; it returns
  the output path, and the engine has run the output of two streams only.
\<close>

theorem sfx_merge_fallback_counterexample:
  "normalize_transition_sfx_track_id (Some 0) = Some 0
   \<and> WHIP_PAN_SFX_PATH (example_env\<lparr>compile := bare_compiler\<rparr>) \<in> dom (files asset_world)
   \<and> fst (process_video_concatenate (example_env\<lparr>compile := bare_compiler\<rparr>) two_clips ''job''
            (Some ''whip_pan'') (Num 0.6) None (Num 0) (Some 0) asset_world) = Inr ''/tmp/job.mp4''
   \<and> jobs (snd (process_video_concatenate (example_env\<lparr>compile := bare_compiler\<rparr>) two_clips
                   ''job'' (Some ''whip_pan'') (Num 0.6) None (Num 0) (Some 0) asset_world))
       = [RunStream
            (Output
               [apply_whip_pan_transition (Input ''/tmp/job_input_0'' [] (Some ''v''))
                  (Input ''/tmp/job_input_1'' [] (Some ''v'')) (Num 0.6) (Num 1.4),
                Filter [Input ''/tmp/job_input_0'' [] (Some ''a''),
                        Input ''/tmp/job_input_1'' [] (Some ''a'')]
                  ''acrossfade'' [] [(''d'', R (Num 0.6))]]
               ''/tmp/job.mp4'' final_output_kwargs)]"
proof -
  let ?e = "example_env\<lparr>compile := bare_compiler\<rparr>"
  let ?files = "[''/tmp/job_input_0'', ''/tmp/job_input_1'']"
  let ?w1 = "asset_world\<lparr>files := (files asset_world)(''/tmp/job_input_0'' \<mapsto> ''http://h/a.mp4'',
                                   ''/tmp/job_input_1'' \<mapsto> ''http://h/b.mp4'')\<rparr>"
  let ?first = "\<lparr>video = Input ''/tmp/job_input_0'' [] (Some ''v''),
            audio = Input ''/tmp/job_input_0'' [] (Some ''a''), duration = Num 2\<rparr>"
  let ?second = "\<lparr>video = Input ''/tmp/job_input_1'' [] (Some ''v''),
            audio = Input ''/tmp/job_input_1'' [] (Some ''a''), duration = Num 2\<rparr>"
  let ?v = "apply_whip_pan_transition (Input ''/tmp/job_input_0'' [] (Some ''v''))
                  (Input ''/tmp/job_input_1'' [] (Some ''v'')) (Num 0.6) (Num 1.4)"
  let ?a = "Filter [Input ''/tmp/job_input_0'' [] (Some ''a''),
                        Input ''/tmp/job_input_1'' [] (Some ''a'')]
                  ''acrossfade'' [] [(''d'', R (Num 0.6))]"
  let ?job = "RunStream (Output [?v, ?a] ''/tmp/job.mp4'' final_output_kwargs)"
  have tid: "normalize_transition_sfx_track_id (Some 0) = Some 0"
    by (simp add: normalize_transition_sfx_track_id_def MIN_TRANSITION_SFX_TRACK_ID_def
        MAX_TRANSITION_SFX_TRACK_ID_def)
  have asset: "WHIP_PAN_SFX_PATH ?e \<in> dom (files asset_world)"
    by (simp add: WHIP_PAN_SFX_PATH_def example_env_def path_join_def asset_world_def)
  then have asset1: "WHIP_PAN_SFX_PATH ?e \<in> dom (files ?w1)"
    by simp
  have vt: "normalize_transition_type (Some ''whip_pan'') = Inr ''whip_pan''"
    by (rule normalize_whip_pan)
  have dl: "download_inputs ?e ''job'' 0 two_clips [] asset_world = (Inr ?files, ?w1)"
    by (rule example_downloads) (simp_all add: example_env_def)
  have plan: "build_transition_plan (int (length ?files)) ''whip_pan'' None = Inr [''whip_pan'']"
    by (simp add: build_transition_plan_def)
  have out: "path_join (LOCAL_STORAGE_PATH ?e) (''job'' @ ''.mp4'') = ''/tmp/job.mp4''"
    by (rule example_output_path) (simp add: example_env_def)
  have norm: "normalize_transition_duration (Num 0.6) = Num 0.6"
    "normalize_whip_pan_sfx_gain_db (Num 0) = Num 0"
    by (simp_all add: normalize_transition_duration_def MIN_TRANSITION_DURATION_def f_gt_def
        MAX_TRANSITION_DURATION_def normalize_whip_pan_sfx_gain_db_def
        MIN_WHIP_PAN_SFX_GAIN_DB_def MAX_WHIP_PAN_SFX_GAIN_DB_def)
  have probes: "probe_streams ?e ?files = Inr [?first, ?second]"
    by (rule example_probes) (simp add: example_env_def)
  from build_whip_pan_sound_effect_present [OF asset1]
  obtain s where s: "build_whip_pan_sound_effect ?e (files ?w1) (Num 1.4) (Num 0.6) (Num 0)
      = Inr (Some s)"
    by blast
  let ?st = "\<lparr>current_video = ?v, current_audio = ?a, cumulative_duration = Num 3.4,
              trailing_clip_duration = Num 2, sfx_streams = [(s, Num 1.4)]\<rparr>"
  have off: "py_max (f_sub (Num 2) (Num 0.6)) (Num 0) = Num 1.4"
    by (simp add: py_max_Num f_sub_Num)
  have total: "f_sub (f_add (Num 2) (Num 2)) (Num 0.6) = Num 3.4"
    by (simp add: f_sub_Num)
  have fold: "fold_boundaries ?e (files ?w1) [''whip_pan''] (Num 0.6) (Num 0) (Some 0) 1
      [?second]
      \<lparr>current_video = video ?first, current_audio = audio ?first,
       cumulative_duration = duration ?first, trailing_clip_duration = duration ?first,
       sfx_streams = []\<rparr> = Inr ?st"
    by (simp add: transition_step_def item_def Let_def effective_06_2_2 [simplified]
        off [simplified] total [simplified] s [simplified])
  have job: "transitions_job ?e ?st ''/tmp/job.mp4'' (Some 0) = Inr ?job"
    by (simp add: transitions_job_def Let_def bare_compiler_def video_audio_output_def)
  have run: "run_job ?e ?job ''/tmp/job.mp4'' ?w1 =
      (Inr (), \<lparr>files = (files ?w1)(''/tmp/job.mp4'' \<mapsto> ''mp4''), jobs = jobs ?w1 @ [?job]\<rparr>)"
    by (simp add: run_job_def Let_def example_env_def written_def)
  have conc: "concatenate_with_transitions ?e ?files ''/tmp/job.mp4'' [''whip_pan''] (Num 0.6)
      (Num 0) (Some 0) ?w1 =
      (Inr (), \<lparr>files = (files ?w1)(''/tmp/job.mp4'' \<mapsto> ''mp4''), jobs = jobs ?w1 @ [?job]\<rparr>)"
    by (simp only: concatenate_with_transitions_def probes list.case sum.case fold job run)
  have step: "(if should_apply_transitions [''whip_pan'']
          then concatenate_with_transitions ?e ?files
                 (path_join (LOCAL_STORAGE_PATH ?e) (''job'' @ ''.mp4'')) [''whip_pan'']
                 (normalize_transition_duration (Num 0.6))
                 (normalize_whip_pan_sfx_gain_db (Num 0))
                 (normalize_transition_sfx_track_id (Some 0)) ?w1
          else concatenate_with_concat_demuxer ?e ?files
                 (path_join (LOCAL_STORAGE_PATH ?e) (''job'' @ ''.mp4'')) ?w1)
        = (Inr (), \<lparr>files = (files ?w1)(''/tmp/job.mp4'' \<mapsto> ''mp4''),
                    jobs = jobs ?w1 @ [?job]\<rparr>)"
    unfolding out norm tid by (simp only: should_apply_whip_pan if_True conc)
  note finished = process_concatenation_done [OF vt dl plan step, unfolded out]
  have res: "fst (process_video_concatenate ?e two_clips ''job'' (Some ''whip_pan'') (Num 0.6)
      None (Num 0) (Some 0) asset_world) = Inr ''/tmp/job.mp4''"
    unfolding finished by (rule example_finish_present) simp_all
  have "jobs (snd (process_video_concatenate ?e two_clips ''job'' (Some ''whip_pan'') (Num 0.6)
      None (Num 0) (Some 0) asset_world)) = [?job]"
    unfolding process_jobs [OF vt dl plan] step by (simp add: asset_world_def)
  with tid asset res show ?thesis by (intro conjI)
qed

subsection \<open>Downloaded inputs after a failure\<close>

text \<open>
  Claim C4 fails on the code: when the probe of the first clip fails after two downloads,
  the error reaches the caller and both downloaded files are still there.
\<close>

theorem inputs_left_after_probe_failure:
  "fst (process_video_concatenate
          (example_env\<lparr>ffmpeg_probe := (\<lambda>p. Inl ''moov atom not found'')\<rparr>) two_clips ''job''
          (Some ''fade'') (Num 0.5) None (Num (- 6)) None empty_world)
     = Inl (RuntimeError ''Unable to probe media file /tmp/job_input_0: moov atom not found'')
   \<and> dom (files (snd (process_video_concatenate
          (example_env\<lparr>ffmpeg_probe := (\<lambda>p. Inl ''moov atom not found'')\<rparr>) two_clips ''job''
          (Some ''fade'') (Num 0.5) None (Num (- 6)) None empty_world)))
     = {''/tmp/job_input_0'', ''/tmp/job_input_1''}"
proof -
  let ?e = "example_env\<lparr>ffmpeg_probe := (\<lambda>p. Inl ''moov atom not found'')\<rparr>"
  let ?files = "[''/tmp/job_input_0'', ''/tmp/job_input_1'']"
  let ?err = "RuntimeError ''Unable to probe media file /tmp/job_input_0: moov atom not found''"
  have dl: "download_inputs ?e ''job'' 0 two_clips [] empty_world = (Inr ?files, downloaded_world)"
    by (rule example_downloads_empty) (simp_all add: example_env_def)
  have plan: "build_transition_plan (int (length ?files)) ''fade'' None = Inr [''fade'']"
    by (simp add: build_transition_plan_def)
  have probes: "probe_streams ?e ?files = Inl ?err"
    by (simp add: probe_media_def)
  have step: "(if should_apply_transitions [''fade'']
          then concatenate_with_transitions ?e ?files
                 (path_join (LOCAL_STORAGE_PATH ?e) (''job'' @ ''.mp4'')) [''fade'']
                 (normalize_transition_duration (Num 0.5))
                 (normalize_whip_pan_sfx_gain_db (Num (- 6)))
                 (normalize_transition_sfx_track_id None) downloaded_world
          else concatenate_with_concat_demuxer ?e ?files
                 (path_join (LOCAL_STORAGE_PATH ?e) (''job'' @ ''.mp4'')) downloaded_world)
        = (Inl ?err, downloaded_world)"
    by (simp only: should_apply_fade if_True concatenate_with_transitions_def probes sum.case)
  note failed = process_concatenation_error [OF normalize_fade dl plan step]
  show ?thesis
    unfolding failed by (auto simp: downloaded_world_def)
qed

end
